theory Spec2Isabelle
  imports Main "HOL-Library.Word" "HOL-Library.Char_ord" "HOL-Library.List_Lexorder"
begin

unbundle bit_operations_syntax

section \<open>Errors and outcomes\<close>

text \<open>
  \<open>user_assert\<close>, \<open>user_error\<close> and \<open>internal_assert\<close> abandon the running call. An
  operation on an object is a function from the object's state to an outcome and the
  state the object is left in: a failed assertion returns \<open>Inl\<close> and the state as it was
  when the assertion was reached.
\<close>

datatype error = UserError string | InternalError string

type_synonym ('r, 's) outcome = "(error + 'r) \<times> 's"

definition failed :: "('r, 's) outcome \<Rightarrow> bool" where
  "failed out = isl (fst out)"

section \<open>Generator lifecycle (class Generator, GeneratorBase)\<close>

text \<open>
  The three flags of \<open>GeneratorBase\<close>, the wrapper class name, and the members of the
  concrete generator type \<open>T\<close> (what \<open>build()\<close>, \<open>generate()\<close> and \<open>schedule()\<close> write).
\<close>

record 'u GeneratorBase =
  build_pipeline_called :: bool
  generate_called :: bool
  schedule_called :: bool
  wrapper_class_name :: string
  members :: 'u

text \<open>
  The methods of the concrete type \<open>T\<close> and the hooks of \<open>GeneratorBase\<close> that are only
  declared in the header (\<open>pre_build\<close>, \<open>pre_generate\<close>, \<open>produce_pipeline\<close>): each may
  change the instance and may fail.
\<close>

record ('u, 'p) methods =
  pre_build :: "'u GeneratorBase \<Rightarrow> (unit, 'u GeneratorBase) outcome"
  pre_generate :: "'u GeneratorBase \<Rightarrow> (unit, 'u GeneratorBase) outcome"
  build :: "'u GeneratorBase \<Rightarrow> ('p, 'u GeneratorBase) outcome"
  generate :: "'u GeneratorBase \<Rightarrow> (unit, 'u GeneratorBase) outcome"
  schedule :: "'u GeneratorBase \<Rightarrow> (unit, 'u GeneratorBase) outcome"
  produce_pipeline :: "'u GeneratorBase \<Rightarrow> ('p, 'u GeneratorBase) outcome"

text \<open>\<open>build_pipeline_impl\<close>, the overload chosen when \<open>T\<close> defines \<open>build()\<close>.\<close>

definition build_pipeline_impl_build ::
  "('u, 'p) methods \<Rightarrow> 'u GeneratorBase \<Rightarrow> ('p, 'u GeneratorBase) outcome" where
  "build_pipeline_impl_build M g =
     (if build_pipeline_called g then (Inl (InternalError ''!build_pipeline_called''), g)
      else case pre_build M g of
        (Inl e, g1) \<Rightarrow> (Inl e, g1)
      | (Inr u, g1) \<Rightarrow>
          (case build M g1 of
             (Inl e, g2) \<Rightarrow> (Inl e, g2)
           | (Inr p, g2) \<Rightarrow> (Inr p, g2\<lparr>build_pipeline_called := True\<rparr>)))"

text \<open>\<open>call_generate_impl\<close> and \<open>call_schedule_impl\<close> when \<open>T\<close> defines \<open>build()\<close>.\<close>

definition call_generate_impl_build :: "'u GeneratorBase \<Rightarrow> (unit, 'u GeneratorBase) outcome" where
  "call_generate_impl_build g = (Inl (UserError ''Unimplemented''), g)"

definition call_schedule_impl_build :: "'u GeneratorBase \<Rightarrow> (unit, 'u GeneratorBase) outcome" where
  "call_schedule_impl_build g = (Inl (UserError ''Unimplemented''), g)"

text \<open>\<open>call_generate_impl\<close>, the overload chosen when \<open>T\<close> defines \<open>generate()\<close>.\<close>

definition call_generate_impl ::
  "('u, 'p) methods \<Rightarrow> 'u GeneratorBase \<Rightarrow> (unit, 'u GeneratorBase) outcome" where
  "call_generate_impl M g =
     (if generate_called g
      then (Inl (UserError ''You may not call the generate() method more than once per instance.''), g)
      else case pre_generate M g of
        (Inl e, g1) \<Rightarrow> (Inl e, g1)
      | (Inr u, g1) \<Rightarrow>
          (case generate M g1 of
             (Inl e, g2) \<Rightarrow> (Inl e, g2)
           | (Inr u', g2) \<Rightarrow> (Inr (), g2\<lparr>generate_called := True\<rparr>)))"

text \<open>\<open>call_schedule_impl\<close>, the overload chosen when \<open>T\<close> defines \<open>schedule()\<close>.\<close>

definition call_schedule_impl ::
  "('u, 'p) methods \<Rightarrow> 'u GeneratorBase \<Rightarrow> (unit, 'u GeneratorBase) outcome" where
  "call_schedule_impl M g =
     (if \<not> generate_called g
      then (Inl (UserError ''You must call the generate() method before calling the schedule() method.''), g)
      else if schedule_called g
      then (Inl (UserError ''You may not call the schedule() method more than once per instance.''), g)
      else case schedule M g of
        (Inl e, g1) \<Rightarrow> (Inl e, g1)
      | (Inr u, g1) \<Rightarrow> (Inr (), g1\<lparr>schedule_called := True\<rparr>))"

text \<open>\<open>build_pipeline_impl\<close>, the overload chosen when \<open>T\<close> defines \<open>generate()\<close>.\<close>

definition build_pipeline_impl_generate ::
  "('u, 'p) methods \<Rightarrow> 'u GeneratorBase \<Rightarrow> ('p, 'u GeneratorBase) outcome" where
  "build_pipeline_impl_generate M g =
     (if build_pipeline_called g then (Inl (InternalError ''!build_pipeline_called''), g)
      else case call_generate_impl M g of
        (Inl e, g1) \<Rightarrow> (Inl e, g1)
      | (Inr u, g1) \<Rightarrow>
          (case call_schedule_impl M g1 of
             (Inl e, g2) \<Rightarrow> (Inl e, g2)
           | (Inr u', g2) \<Rightarrow> produce_pipeline M (g2\<lparr>build_pipeline_called := True\<rparr>)))"

text \<open>
  A generator used in the examples: its members are the log of the methods that ran;
  the hooks of the base class do nothing.
\<close>

definition logging_methods :: "(string list, string list) methods" where
  "logging_methods =
     \<lparr> pre_build = (\<lambda>g. (Inr (), g)),
       pre_generate = (\<lambda>g. (Inr (), g)),
       build = (\<lambda>g. (Inr (members g @ [''build'']), g\<lparr>members := members g @ [''build'']\<rparr>)),
       generate = (\<lambda>g. (Inr (), g\<lparr>members := members g @ [''generate'']\<rparr>)),
       schedule = (\<lambda>g. (Inr (), g\<lparr>members := members g @ [''schedule'']\<rparr>)),
       produce_pipeline = (\<lambda>g. (Inr (members g), g)) \<rparr>"

definition new_generator :: "'u \<Rightarrow> 'u GeneratorBase" where
  "new_generator u =
     \<lparr> build_pipeline_called = False, generate_called = False, schedule_called = False,
       wrapper_class_name = [], members = u \<rparr>"

section \<open>Configuration values (GeneratorParam)\<close>

text \<open>
  \<open>GeneratorParamImpl<T>\<close> holds the current value; \<open>GeneratorParam_Arithmetic<T>\<close> adds
  the two bounds and \<open>GeneratorParam_Enum<T>\<close> the name table. The type \<open>T\<close> is a type
  parameter (a member \<open>x_\<close> of the source is \<open>x'\<close> here); the machine integers are their values as \<open>int\<close>, compared as \<open>T\<close> compares.
\<close>

record 'a GeneratorParamImpl =
  value' :: 'a

record 'a GeneratorParam_Arithmetic = "'a GeneratorParamImpl" +
  min_GP :: 'a
  max_GP :: 'a

record 'a GeneratorParam_Enum = "'a GeneratorParamImpl" +
  enum_map :: "(string \<times> 'a) list"

text \<open>\<open>GeneratorParam_Arithmetic::set\<close>: the range assertion, then the base class's assignment.\<close>

definition set_Arithmetic ::
  "'a::linorder \<Rightarrow> 'a GeneratorParam_Arithmetic \<Rightarrow> (unit, 'a GeneratorParam_Arithmetic) outcome" where
  "set_Arithmetic new_value p =
     (if new_value \<ge> min_GP p \<and> new_value \<le> max_GP p
      then (Inr (), p\<lparr>value' := new_value\<rparr>)
      else (Inl (UserError ''Value out of range''), p))"

text \<open>The constructor stores the value and then calls \<open>set\<close> on it.\<close>

definition new_Arithmetic ::
  "'a::linorder \<Rightarrow> 'a \<Rightarrow> 'a \<Rightarrow> (unit, 'a GeneratorParam_Arithmetic) outcome" where
  "new_Arithmetic v lo hi = set_Arithmetic v \<lparr>value' = v, min_GP = lo, max_GP = hi\<rparr>"

text \<open>
  \<open>iss >> t\<close> on a fresh \<open>std::istringstream\<close> is a function of the text: the value read
  (\<open>None\<close> when the stream's failbit is set) and the characters left unread, so that
  \<open>iss.get() == EOF\<close> holds exactly when nothing is left.
\<close>

type_synonym 'a extractor = "string \<Rightarrow> 'a option \<times> string"

definition set_from_string_Arithmetic ::
  "'a::linorder extractor \<Rightarrow> string \<Rightarrow> 'a GeneratorParam_Arithmetic
     \<Rightarrow> (unit, 'a GeneratorParam_Arithmetic) outcome" where
  "set_from_string_Arithmetic ext new_value_string p =
     (case ext new_value_string of
        (Some t, []) \<Rightarrow> set_Arithmetic t p
      | _ \<Rightarrow> (Inl (UserError ''Unable to parse''), p))"

text \<open>\<open>oss << this->value()\<close> is the stream's formatting of a \<open>T\<close>.\<close>

definition to_string_Arithmetic :: "('a \<Rightarrow> string) \<Rightarrow> 'a GeneratorParam_Arithmetic \<Rightarrow> string" where
  "to_string_Arithmetic fmt p = fmt (value' p)"

subsection \<open>The standard library's formatting and extraction\<close>

definition isspace :: "char \<Rightarrow> bool" where
  "isspace c = (of_char c = (32::nat) \<or> (9 \<le> (of_char c :: nat) \<and> (of_char c :: nat) \<le> 13))"

definition isdigit :: "char \<Rightarrow> bool" where
  "isdigit c = (48 \<le> (of_char c :: nat) \<and> (of_char c :: nat) \<le> 57)"

definition digit_char :: "nat \<Rightarrow> char" where
  "digit_char d = char_of (48 + d)"

function dec_digits :: "nat \<Rightarrow> string" where
  "dec_digits n = (if n < 10 then [digit_char n] else dec_digits (n div 10) @ [digit_char (n mod 10)])"
  by pat_completeness auto
termination
  by (relation "measure id") auto

declare dec_digits.simps [simp del]

text \<open>\<open>oss << v\<close> for a signed integer type wider than \<open>char\<close>: decimal, \<open>-\<close> when negative.\<close>

definition format_int :: "int \<Rightarrow> string" where
  "format_int v = (if v < 0 then CHR ''-'' # dec_digits (nat (- v)) else dec_digits (nat v))"

text \<open>
  \<open>iss >> t\<close> for a signed integer type of \<open>w\<close> bits wider than \<open>char\<close>: leading white
  space is skipped, then an optional sign and the decimal digits are read; no digit, or a
  value that \<open>T\<close> cannot hold, sets the failbit.
\<close>

definition digits_value :: "string \<Rightarrow> int" where
  "digits_value ds = foldl (\<lambda>a c. 10 * a + (of_char c - 48)) 0 ds"

definition extract_signed :: "nat \<Rightarrow> int extractor" where
  "extract_signed w s =
     (let s1 = dropWhile isspace s;
          neg = (case s1 of c # r \<Rightarrow> c = CHR ''-'' | [] \<Rightarrow> False);
          s2 = (case s1 of c # r \<Rightarrow> if c = CHR ''-'' \<or> c = CHR ''+'' then r else s1 | [] \<Rightarrow> s1);
          ds = takeWhile isdigit s2;
          rest = dropWhile isdigit s2;
          v = (if neg then - digits_value ds else digits_value ds)
      in if ds = [] then (None, rest)
         else if v < - (2 ^ (w - 1)) \<or> v > 2 ^ (w - 1) - 1 then (None, rest)
         else (Some v, rest))"

text \<open>
  \<open>int8_t\<close> is \<open>signed char\<close>: \<open>oss << v\<close> writes the one character with that code, and
  \<open>iss >> t\<close> skips white space and reads one character.
\<close>

definition format_int8 :: "int \<Rightarrow> string" where
  "format_int8 v = [char_of (v mod 256)]"

definition extract_int8 :: "int extractor" where
  "extract_int8 s =
     (case dropWhile isspace s of
        [] \<Rightarrow> (None, [])
      | c # rest \<Rightarrow> (Some (if (of_char c :: int) \<ge> 128 then of_char c - 256 else of_char c), rest))"

subsection \<open>GeneratorParam_Bool\<close>

text \<open>The bounds of a \<open>bool\<close> parameter are \<open>numeric_limits<bool>\<close>'s: false and true.\<close>

definition new_Bool :: "bool \<Rightarrow> (unit, bool GeneratorParam_Arithmetic) outcome" where
  "new_Bool v = new_Arithmetic v False True"

definition set_from_string_Bool ::
  "string \<Rightarrow> bool GeneratorParam_Arithmetic \<Rightarrow> (unit, bool GeneratorParam_Arithmetic) outcome" where
  "set_from_string_Bool new_value_string p =
     (if new_value_string = ''true'' then set_Arithmetic True p
      else if new_value_string = ''false'' then set_Arithmetic False p
      else (Inl (UserError ''Unable to parse bool''), p))"

definition to_string_Bool :: "bool GeneratorParam_Arithmetic \<Rightarrow> string" where
  "to_string_Bool p = (if value' p then ''true'' else ''false'')"

subsection \<open>GeneratorParam_Enum\<close>

text \<open>
  A \<open>std::map<std::string, T>\<close> is the list of its entries in ascending key order, one
  entry for each key; building it from an initializer list inserts the pairs one by one,
  and a pair whose key is already there is dropped.
\<close>

fun map_insert :: "string \<times> 'a \<Rightarrow> (string \<times> 'a) list \<Rightarrow> (string \<times> 'a) list" where
  "map_insert kv [] = [kv]"
| "map_insert kv (e # m) =
     (if fst kv < fst e then kv # e # m
      else if fst kv = fst e then e # m
      else e # map_insert kv m)"

definition std_map :: "(string \<times> 'a) list \<Rightarrow> (string \<times> 'a) list" where
  "std_map init = foldl (\<lambda>m kv. map_insert kv m) [] init"

text \<open>\<open>enum_to_string\<close>: the loop over the entries, in the map's order.\<close>

fun enum_to_string :: "(string \<times> 'a) list \<Rightarrow> 'a \<Rightarrow> error + string" where
  "enum_to_string [] t = Inl (UserError ''Enumeration value not found.'')"
| "enum_to_string (key_value # m) t =
     (if t = snd key_value then Inr (fst key_value) else enum_to_string m t)"

definition enum_from_string :: "(string \<times> 'a) list \<Rightarrow> string \<Rightarrow> error + 'a" where
  "enum_from_string m s =
     (case map_of m s of
        None \<Rightarrow> Inl (UserError ''Enumeration value not found'')
      | Some v \<Rightarrow> Inr v)"

definition new_Enum :: "'a \<Rightarrow> (string \<times> 'a) list \<Rightarrow> 'a GeneratorParam_Enum" where
  "new_Enum v init = \<lparr>value' = v, enum_map = std_map init\<rparr>"

definition set_from_string_Enum ::
  "string \<Rightarrow> 'a GeneratorParam_Enum \<Rightarrow> (unit, 'a GeneratorParam_Enum) outcome" where
  "set_from_string_Enum new_value_string p =
     (case map_of (enum_map p) new_value_string of
        None \<Rightarrow> (Inl (UserError ''Enumeration value not found''), p)
      | Some v \<Rightarrow> (Inr (), p\<lparr>value' := v\<rparr>))"

definition to_string_Enum :: "'a GeneratorParam_Enum \<Rightarrow> error + string" where
  "to_string_Enum p = enum_to_string (enum_map p) (value' p)"

text \<open>The enumeration of the wrapper test, \<open>enum class BagType { Paper, Plastic }\<close>.\<close>

datatype BagType = Paper | Plastic

definition bag_type :: "BagType GeneratorParam_Enum" where
  "bag_type = new_Enum Paper [(''paper'', Paper), (''plastic'', Plastic)]"

section \<open>Argument descriptors (GIOBase, GeneratorInput, GeneratorOutput)\<close>

datatype IOKind = Scalar | Function

text \<open>
  \<open>halide_type_t\<close> as the metadata carries it: a type code (\<open>halide_type_int = 0\<close>,
  \<open>halide_type_uint = 1\<close>, \<open>halide_type_float = 2\<close>, \<open>halide_type_handle = 3\<close>) and a bit width.
\<close>

definition halide_type_int :: int where "halide_type_int = 0"
definition halide_type_uint :: int where "halide_type_uint = 1"
definition halide_type_float :: int where "halide_type_float = 2"
definition halide_type_handle :: int where "halide_type_handle = 3"

record halide_type_t =
  code :: int
  bits :: int

text \<open>The constructors \<open>Int\<close>, \<open>UInt\<close>, \<open>Float\<close> and \<open>Handle\<close> of a type, and \<open>Bool\<close>.\<close>

definition Int_t :: "int \<Rightarrow> halide_type_t" where
  "Int_t b = \<lparr>code = halide_type_int, bits = b\<rparr>"

definition UInt_t :: "int \<Rightarrow> halide_type_t" where
  "UInt_t b = \<lparr>code = halide_type_uint, bits = b\<rparr>"

definition Float_t :: "int \<Rightarrow> halide_type_t" where
  "Float_t b = \<lparr>code = halide_type_float, bits = b\<rparr>"

definition Handle_t :: halide_type_t where
  "Handle_t = \<lparr>code = halide_type_handle, bits = 64\<rparr>"

definition Bool_t :: halide_type_t where
  "Bool_t = UInt_t 1"

text \<open>
  The fields of \<open>GIOBase\<close>. \<open>array_size'\<close> is the value its \<open>ArgWithParam<int>\<close> has
  when it is read; \<open>is_array\<close> is what the override in \<open>GeneratorInput<T>\<close> and
  \<open>GeneratorOutput<T>\<close> returns, \<open>std::is_array<T>::value\<close>. The types \<open>Func\<close> and \<open>Expr\<close>
  are type parameters.
\<close>

record ('f, 'e) GIOBase =
  array_size' :: int
  name' :: string
  kind' :: IOKind
  types' :: "halide_type_t list"
  dimensions' :: int
  funcs' :: "'f list"
  exprs' :: "'e list"
  is_array :: bool

text \<open>\<open>array_size()\<close> converts the \<open>int\<close> to \<open>size_t\<close>.\<close>

definition array_size :: "('f, 'e, 'z) GIOBase_scheme \<Rightarrow> nat" where
  "array_size d = nat (array_size' d mod 2 ^ 64)"

definition funcs :: "('f, 'e, 'z) GIOBase_scheme \<Rightarrow> error + 'f list" where
  "funcs d =
     (if length (funcs' d) = array_size d \<and> exprs' d = [] then Inr (funcs' d)
      else Inl (InternalError ''funcs_.size() == array_size() && exprs_.empty()''))"

definition exprs :: "('f, 'e, 'z) GIOBase_scheme \<Rightarrow> error + 'e list" where
  "exprs d =
     (if length (exprs' d) = array_size d \<and> funcs' d = [] then Inr (exprs' d)
      else Inl (InternalError ''exprs_.size() == array_size() && funcs_.empty()''))"

text \<open>
  The invariant in the specification's words: exactly one of the two value lists is
  populated, never both, and its length is the resolved multiplicity.
\<close>

definition exactly_one_populated :: "('f, 'e, 'z) GIOBase_scheme \<Rightarrow> bool" where
  "exactly_one_populated d =
     ((funcs' d \<noteq> [] \<and> exprs' d = [] \<and> length (funcs' d) = array_size d)
      \<or> (exprs' d \<noteq> [] \<and> funcs' d = [] \<and> length (exprs' d) = array_size d))"

text \<open>
  \<open>halide_scalar_value_t\<close> is a union of 64 bits; a field of \<open>w\<close> bits is its low \<open>w\<close>
  bits. A pointer to it that may be null is an option.
\<close>

type_synonym halide_scalar_value_t = "64 word"

text \<open>
  \<open>make_scalar<T>\<close> of the test, for an integer type of \<open>b\<close> bits: a zeroed union with
  the field set. For a floating-point type the field holds the IEEE bits of the value.
\<close>

definition make_scalar :: "nat \<Rightarrow> int \<Rightarrow> halide_scalar_value_t" where
  "make_scalar b v = word_of_int (v mod 2 ^ b)"

text \<open>
  Modelled from the spec: \<open>Internal::Parameter\<close>, whose declaration is not part of the
  header. It has its name, and an optional default, min and max: each is there once
  \<open>set_scalar\<close>, \<open>set_min_value\<close> or \<open>set_max_value\<close> has pushed it onto the parameter.
\<close>

record Parameter =
  param_name :: string
  scalar :: "halide_scalar_value_t option"
  min_value :: "halide_scalar_value_t option"
  max_value :: "halide_scalar_value_t option"

text \<open>
  \<open>GeneratorInput<T>\<close>: the default \<open>def_\<close> (initialised to \<open>TBase()\<close>, a value, never
  absent), the bounds \<open>min_\<close> and \<open>max_\<close> (an undefined \<open>Expr\<close> is \<open>None\<close>) and the
  parameters of \<open>GeneratorInputBase\<close>. A scalar of type \<open>T\<close> is the union that holds it:
  \<open>make_scalar\<close> of an integer, the IEEE bits of a floating-point value, and 0 for
  \<open>TBase()\<close> and \<open>static_cast<T>(0)\<close> of every scalar \<open>T\<close>.
\<close>

record ('f, 'e) GeneratorInput = "('f, 'e) GIOBase" +
  def' :: halide_scalar_value_t
  min' :: "halide_scalar_value_t option"
  max' :: "halide_scalar_value_t option"
  parameters' :: "Parameter list"

text \<open>
  The constructors of a scalar input: with default and bounds, with a default, and with
  a name only (which delegates with \<open>static_cast<T>(0)\<close>); the forms taking an
  \<open>array_size\<close> are those of \<open>T[]\<close> and \<open>T[N]\<close>.
\<close>

definition GeneratorInput_array_def_min_max ::
  "bool \<Rightarrow> int \<Rightarrow> string \<Rightarrow> halide_type_t \<Rightarrow> halide_scalar_value_t
     \<Rightarrow> halide_scalar_value_t option \<Rightarrow> halide_scalar_value_t option
     \<Rightarrow> ('f, 'e) GeneratorInput" where
  "GeneratorInput_array_def_min_max arr n nm t d lo hi =
     \<lparr> array_size' = n, name' = nm, kind' = Scalar, types' = [t], dimensions' = 0,
       funcs' = [], exprs' = [], is_array = arr,
       def' = d, min' = lo, max' = hi, parameters' = [] \<rparr>"

definition GeneratorInput_def_min_max ::
  "string \<Rightarrow> halide_type_t \<Rightarrow> halide_scalar_value_t \<Rightarrow> halide_scalar_value_t
     \<Rightarrow> halide_scalar_value_t \<Rightarrow> ('f, 'e) GeneratorInput" where
  "GeneratorInput_def_min_max nm t d lo hi =
     GeneratorInput_array_def_min_max False 1 nm t d (Some lo) (Some hi)"

definition GeneratorInput_def ::
  "string \<Rightarrow> halide_type_t \<Rightarrow> halide_scalar_value_t \<Rightarrow> ('f, 'e) GeneratorInput" where
  "GeneratorInput_def nm t d = GeneratorInput_array_def_min_max False 1 nm t d None None"

definition GeneratorInput_n :: "string \<Rightarrow> halide_type_t \<Rightarrow> ('f, 'e) GeneratorInput" where
  "GeneratorInput_n nm t = GeneratorInput_def nm t 0"

definition GeneratorInput_array_def ::
  "int \<Rightarrow> string \<Rightarrow> halide_type_t \<Rightarrow> halide_scalar_value_t \<Rightarrow> ('f, 'e) GeneratorInput" where
  "GeneratorInput_array_def n nm t d = GeneratorInput_array_def_min_max True n nm t d None None"

definition GeneratorInput_array_n :: "int \<Rightarrow> string \<Rightarrow> halide_type_t \<Rightarrow> ('f, 'e) GeneratorInput" where
  "GeneratorInput_array_n n nm t = GeneratorInput_array_def n nm t 0"

text \<open>The constructor of a \<open>Func\<close> input, and of a \<open>Func\<close> array input.\<close>

definition GeneratorInput_Func ::
  "bool \<Rightarrow> int \<Rightarrow> string \<Rightarrow> halide_type_t \<Rightarrow> int \<Rightarrow> ('f, 'e) GeneratorInput" where
  "GeneratorInput_Func arr n nm t d =
     \<lparr> array_size' = n, name' = nm, kind' = Function, types' = [t], dimensions' = d,
       funcs' = [], exprs' = [], is_array = arr,
       def' = 0, min' = None, max' = None, parameters' = [] \<rparr>"

text \<open>The constructor of an output.\<close>

definition GeneratorOutput ::
  "bool \<Rightarrow> int \<Rightarrow> string \<Rightarrow> halide_type_t list \<Rightarrow> int \<Rightarrow> ('f, 'e) GIOBase" where
  "GeneratorOutput arr n nm ts d =
     \<lparr> array_size' = n, name' = nm, kind' = Function, types' = ts, dimensions' = d,
       funcs' = [], exprs' = [], is_array = arr \<rparr>"

text \<open>
  \<open>set_def_min_max_impl\<close> for a scalar \<open>T\<close>: for each of \<open>parameters_\<close>, the default is
  set, and each bound that is defined; for a \<open>Func\<close> it does nothing.
\<close>

definition set_def_min_max_1 :: "('f, 'e) GeneratorInput \<Rightarrow> Parameter \<Rightarrow> Parameter" where
  "set_def_min_max_1 inp p =
     (let p1 = p\<lparr>scalar := Some (def' inp)\<rparr>;
          p2 = (case min' inp of Some lo \<Rightarrow> p1\<lparr>min_value := Some lo\<rparr> | None \<Rightarrow> p1);
          p3 = (case max' inp of Some hi \<Rightarrow> p2\<lparr>max_value := Some hi\<rparr> | None \<Rightarrow> p2)
      in p3)"

definition set_def_min_max_impl :: "('f, 'e) GeneratorInput \<Rightarrow> ('f, 'e) GeneratorInput" where
  "set_def_min_max_impl inp =
     (if kind' inp = Scalar then inp\<lparr>parameters' := map (set_def_min_max_1 inp) (parameters' inp)\<rparr>
      else inp)"

text \<open>
  \<open>FuncOrExpr\<close>: made from a \<open>Func\<close> or from an \<open>Expr\<close>; \<open>func()\<close> and \<open>expr()\<close> assert
  the kind.
\<close>

datatype ('f, 'e) FuncOrExpr = FuncOrExpr_Func 'f | FuncOrExpr_Expr 'e

fun kind :: "('f, 'e) FuncOrExpr \<Rightarrow> IOKind" where
  "kind (FuncOrExpr_Func f) = Function"
| "kind (FuncOrExpr_Expr e) = Scalar"

fun func :: "('f, 'e) FuncOrExpr \<Rightarrow> error + 'f" where
  "func (FuncOrExpr_Func f) = Inr f"
| "func (FuncOrExpr_Expr e) = Inl (InternalError ''Expected Func, got Expr'')"

fun expr :: "('f, 'e) FuncOrExpr \<Rightarrow> error + 'e" where
  "expr (FuncOrExpr_Expr e) = Inr e"
| "expr (FuncOrExpr_Func f) = Inl (InternalError ''Expected Expr, got Func'')"

text \<open>
  Modelled from the spec: \<open>GIOBase::array_name\<close>, declared in the header and defined
  elsewhere. The i-th element of an array is named \<open>name_i\<close>, \<open>i\<close> from zero in decimal;
  an argument that is not an array keeps its name.
\<close>

definition array_name :: "('f, 'e, 'z) GIOBase_scheme \<Rightarrow> nat \<Rightarrow> string" where
  "array_name d i = (if is_array d then name' d @ ''_'' @ dec_digits i else name' d)"

text \<open>
  Modelled from the spec: \<open>GeneratorInputBase::init_parameters\<close>, declared in the header
  and defined elsewhere: one parameter for each element, named by \<open>array_name\<close>, with no
  default and no bound yet.
\<close>

definition init_parameters :: "('f, 'e) GeneratorInput \<Rightarrow> ('f, 'e) GeneratorInput" where
  "init_parameters inp =
     inp\<lparr>parameters' :=
       map (\<lambda>i. \<lparr>param_name = array_name inp i, scalar = None, min_value = None, max_value = None\<rparr>)
         [0..<array_size inp]\<rparr>"

text \<open>
  Modelled from the spec: \<open>GeneratorInputBase::init_internals\<close>, declared in the header
  and defined elsewhere: the binding of an input inside its generator. It makes the
  parameters, pushes default, min and max onto them, and populates the one value list of
  the input's kind with a handle for each parameter; \<open>mk_func\<close> and \<open>mk_expr\<close> are how a
  handle is made from a parameter.
\<close>

definition init_internals ::
  "(Parameter \<Rightarrow> 'f) \<Rightarrow> (Parameter \<Rightarrow> 'e) \<Rightarrow> ('f, 'e) GeneratorInput \<Rightarrow> ('f, 'e) GeneratorInput" where
  "init_internals mk_func mk_expr inp =
     (let inp1 = set_def_min_max_impl (init_parameters inp)
      in inp1\<lparr>funcs' := (if kind' inp1 = Function then map mk_func (parameters' inp1) else []),
              exprs' := (if kind' inp1 = Scalar then map mk_expr (parameters' inp1) else [])\<rparr>)"

text \<open>
  The loops that read a list of \<open>FuncOrExpr\<close> through \<open>func()\<close> and through \<open>expr()\<close>.
\<close>

fun all_funcs :: "('f, 'e) FuncOrExpr list \<Rightarrow> error + 'f list" where
  "all_funcs [] = Inr []"
| "all_funcs (i # inputs) =
     (case func i of
        Inl e \<Rightarrow> Inl e
      | Inr f \<Rightarrow> (case all_funcs inputs of Inl e \<Rightarrow> Inl e | Inr fs \<Rightarrow> Inr (f # fs)))"

fun all_exprs :: "('f, 'e) FuncOrExpr list \<Rightarrow> error + 'e list" where
  "all_exprs [] = Inr []"
| "all_exprs (i # inputs) =
     (case expr i of
        Inl e \<Rightarrow> Inl e
      | Inr x \<Rightarrow> (case all_exprs inputs of Inl e \<Rightarrow> Inl e | Inr xs \<Rightarrow> Inr (x # xs)))"

text \<open>
  Modelled from the spec: \<open>GeneratorInputBase::set_inputs\<close>, declared in the header and
  defined elsewhere: the binding of an input to the values a caller supplies. It fails
  with ArityMismatch when their number is not \<open>array_size()\<close>, and on a value that is
  not of the input's kind; otherwise the values are the one list of that kind and the
  other list is empty.
\<close>

definition set_inputs ::
  "('f, 'e) FuncOrExpr list \<Rightarrow> ('f, 'e) GeneratorInput \<Rightarrow> (unit, ('f, 'e) GeneratorInput) outcome" where
  "set_inputs inputs inp =
     (if length inputs \<noteq> array_size inp then (Inl (UserError ''ArityMismatch''), inp)
      else case kind' inp of
        Function \<Rightarrow>
          (case all_funcs inputs of
             Inl e \<Rightarrow> (Inl e, inp)
           | Inr fs \<Rightarrow> (Inr (), inp\<lparr>funcs' := fs, exprs' := []\<rparr>))
      | Scalar \<Rightarrow>
          (case all_exprs inputs of
             Inl e \<Rightarrow> (Inl e, inp)
           | Inr xs \<Rightarrow> (Inr (), inp\<lparr>exprs' := xs, funcs' := []\<rparr>)))"

section \<open>Metadata records\<close>

datatype halide_argument_kind_t =
  halide_argument_kind_input_scalar
  | halide_argument_kind_input_buffer
  | halide_argument_kind_output_buffer

record halide_filter_argument_t =
  arg_name :: string
  arg_kind :: halide_argument_kind_t
  arg_dimensions :: int
  arg_type :: halide_type_t
  arg_def :: "halide_scalar_value_t option"
  arg_min :: "halide_scalar_value_t option"
  arg_max :: "halide_scalar_value_t option"

record halide_filter_metadata_t =
  num_arguments :: int
  arguments :: "halide_filter_argument_t list"
  target :: string
  md_name :: string

text \<open>Equality of two IEEE values given by their bits: a NaN equals nothing, the zeros are equal.\<close>

definition f32_eq :: "32 word \<Rightarrow> 32 word \<Rightarrow> bool" where
  "f32_eq x y =
     (\<not> (x AND 0x7F800000 = 0x7F800000 \<and> x AND 0x007FFFFF \<noteq> 0)
      \<and> \<not> (y AND 0x7F800000 = 0x7F800000 \<and> y AND 0x007FFFFF \<noteq> 0)
      \<and> (x = y \<or> (x AND 0x7FFFFFFF = 0 \<and> y AND 0x7FFFFFFF = 0)))"

definition f64_eq :: "64 word \<Rightarrow> 64 word \<Rightarrow> bool" where
  "f64_eq x y =
     (\<not> (x AND 0x7FF0000000000000 = 0x7FF0000000000000 \<and> x AND 0x000FFFFFFFFFFFFF \<noteq> 0)
      \<and> \<not> (y AND 0x7FF0000000000000 = 0x7FF0000000000000 \<and> y AND 0x000FFFFFFFFFFFFF \<noteq> 0)
      \<and> (x = y \<or> (x AND 0x7FFFFFFFFFFFFFFF = 0 \<and> y AND 0x7FFFFFFFFFFFFFFF = 0)))"

text \<open>
  \<open>scalar_union_equal\<close> of the test. An inner \<open>switch\<close> with no matching width falls
  through to the next \<open>case\<close> of the outer one; a type code that is none of the four
  reaches \<open>exit(-1)\<close>.
\<close>

definition handle_case :: "halide_scalar_value_t \<Rightarrow> halide_scalar_value_t \<Rightarrow> error + bool" where
  "handle_case e a = Inr (e = a)"

definition float_case :: "int \<Rightarrow> halide_scalar_value_t \<Rightarrow> halide_scalar_value_t \<Rightarrow> error + bool" where
  "float_case type_bits e a =
     (if type_bits = 32 then Inr (f32_eq (ucast e) (ucast a))
      else if type_bits = 64 then Inr (f64_eq e a)
      else handle_case e a)"

definition uint_case :: "int \<Rightarrow> halide_scalar_value_t \<Rightarrow> halide_scalar_value_t \<Rightarrow> error + bool" where
  "uint_case type_bits e a =
     (if type_bits = 1 then Inr ((ucast e :: 8 word) = ucast a)
      else if type_bits = 8 then Inr ((ucast e :: 8 word) = ucast a)
      else if type_bits = 16 then Inr ((ucast e :: 16 word) = ucast a)
      else if type_bits = 32 then Inr ((ucast e :: 32 word) = ucast a)
      else if type_bits = 64 then Inr (e = a)
      else float_case type_bits e a)"

definition int_case :: "int \<Rightarrow> halide_scalar_value_t \<Rightarrow> halide_scalar_value_t \<Rightarrow> error + bool" where
  "int_case type_bits e a =
     (if type_bits = 8 then Inr ((ucast e :: 8 word) = ucast a)
      else if type_bits = 16 then Inr ((ucast e :: 16 word) = ucast a)
      else if type_bits = 32 then Inr ((ucast e :: 32 word) = ucast a)
      else if type_bits = 64 then Inr (e = a)
      else uint_case type_bits e a)"

definition scalar_union_equal ::
  "int \<Rightarrow> int \<Rightarrow> halide_scalar_value_t \<Rightarrow> halide_scalar_value_t \<Rightarrow> error + bool" where
  "scalar_union_equal type_code type_bits e a =
     (if type_code = halide_type_int then int_case type_bits e a
      else if type_code = halide_type_uint then uint_case type_bits e a
      else if type_code = halide_type_float then float_case type_bits e a
      else if type_code = halide_type_handle then handle_case e a
      else Inl (UserError ''Unsupported type or size''))"

fun scalar_union_ptr_equal ::
  "int \<Rightarrow> int \<Rightarrow> halide_scalar_value_t option \<Rightarrow> halide_scalar_value_t option \<Rightarrow> error + bool" where
  "scalar_union_ptr_equal type_code type_bits (Some e) (Some a) =
     scalar_union_equal type_code type_bits e a"
| "scalar_union_ptr_equal type_code type_bits (Some e) None = Inr False"
| "scalar_union_ptr_equal type_code type_bits None (Some a) = Inr False"
| "scalar_union_ptr_equal type_code type_bits None None = Inr True"

section \<open>Metadata emission\<close>

text \<open>
  What an instance declares: its inputs and outputs in declaration order (the
  \<open>filter_inputs\<close> and \<open>filter_outputs\<close> of \<open>GeneratorBase\<close>), whether its target asks for
  the implicit user context argument, and the target's text.
\<close>

record ('f, 'e) declarations =
  filter_inputs :: "('f, 'e) GeneratorInput list"
  filter_outputs :: "('f, 'e) GIOBase list"
  user_context :: bool
  target_string :: string

text \<open>
  Modelled from the spec: the rows of one element of an argument (the metadata emitter is
  not part of the header). An element has one row; an element of a tuple-valued output
  has one row for each of its types, named \<open>name.j\<close> as the expected rows \<open>output.0\<close>
  and \<open>output.1\<close> of the metadata test are.
\<close>

definition element_rows ::
  "(string \<Rightarrow> halide_type_t \<Rightarrow> halide_filter_argument_t) \<Rightarrow> halide_type_t list \<Rightarrow> string
     \<Rightarrow> halide_filter_argument_t list" where
  "element_rows mk ts nm =
     (case ts of
        [t] \<Rightarrow> [mk nm t]
      | _ \<Rightarrow> map (\<lambda>(j, t). mk (nm @ ''.'' @ dec_digits j) t) (enumerate 0 ts))"

text \<open>
  Modelled from the spec: the row of one element of an input. Kind, dimensions and type
  are the descriptor's. The default, the min and the max are the raw unions its
  parameter carries, and one the parameter does not carry is absent; the row of a
  handle carries none (the expected rows \<open>h\<close>, \<open>array_h_0\<close> and \<open>array_h_1\<close> of the
  metadata test).
\<close>

definition input_row ::
  "('f, 'e) GeneratorInput \<Rightarrow> Parameter \<Rightarrow> string \<Rightarrow> halide_type_t \<Rightarrow> halide_filter_argument_t" where
  "input_row inp p nm t =
     \<lparr> arg_name = nm,
       arg_kind = (if kind' inp = Function then halide_argument_kind_input_buffer
                   else halide_argument_kind_input_scalar),
       arg_dimensions = dimensions' inp,
       arg_type = t,
       arg_def = (if code t = halide_type_handle then None else scalar p),
       arg_min = (if code t = halide_type_handle then None else min_value p),
       arg_max = (if code t = halide_type_handle then None else max_value p) \<rparr>"

text \<open>
  Modelled from the spec: the rows of one input, the loop over its parameters in
  ascending index order.
\<close>

definition input_rows :: "('f, 'e) GeneratorInput \<Rightarrow> halide_filter_argument_t list" where
  "input_rows inp =
     foldl (\<lambda>rows p. rows @ element_rows (input_row inp p) (types' inp) (param_name p)) []
       (parameters' inp)"

text \<open>Modelled from the spec: the row of one element of an output; it carries no scalar.\<close>

definition output_row ::
  "('f, 'e) GIOBase \<Rightarrow> string \<Rightarrow> halide_type_t \<Rightarrow> halide_filter_argument_t" where
  "output_row out nm t =
     \<lparr> arg_name = nm, arg_kind = halide_argument_kind_output_buffer,
       arg_dimensions = dimensions' out, arg_type = t,
       arg_def = None, arg_min = None, arg_max = None \<rparr>"

text \<open>
  Modelled from the spec: the rows of one output, the loop over its elements in
  ascending index order.
\<close>

definition output_rows :: "('f, 'e) GIOBase \<Rightarrow> halide_filter_argument_t list" where
  "output_rows out =
     foldl (\<lambda>rows i. rows @ element_rows (output_row out) (types' out) (array_name out i)) []
       [0..<array_size out]"

text \<open>
  Modelled from the spec: the row of the implicit context argument, as the first
  expected row of the metadata test has it.
\<close>

definition user_context_row :: halide_filter_argument_t where
  "user_context_row =
     \<lparr> arg_name = ''__user_context'', arg_kind = halide_argument_kind_input_scalar,
       arg_dimensions = 0, arg_type = Handle_t,
       arg_def = None, arg_min = None, arg_max = None \<rparr>"

text \<open>
  Modelled from the spec: the state \<open>Built\<close>, in the flags of \<open>GeneratorBase\<close>: the
  one-shot or phased build has run, or \<open>generate()\<close> and \<open>schedule()\<close> both have.
\<close>

definition built :: "'u GeneratorBase \<Rightarrow> bool" where
  "built g = (build_pipeline_called g \<or> (generate_called g \<and> schedule_called g))"

text \<open>
  Modelled from the spec: \<open>emit_metadata\<close>. It fails on an instance that is not built;
  otherwise the rows are pushed in this order: the context argument when there is one,
  the inputs in declaration order, the outputs in declaration order.
\<close>

definition emit_metadata ::
  "string \<Rightarrow> ('f, 'e) declarations GeneratorBase \<Rightarrow> error + halide_filter_metadata_t" where
  "emit_metadata function_name g =
     (if \<not> built g then Inl (UserError ''NotBuilt'')
      else
        let rows0 = (if user_context (members g) then [user_context_row] else []);
            rows1 = foldl (\<lambda>rows inp. rows @ input_rows inp) rows0 (filter_inputs (members g));
            rows2 = foldl (\<lambda>rows out. rows @ output_rows out) rows1 (filter_outputs (members g))
        in Inr \<lparr> num_arguments = int (length rows2), arguments = rows2,
                 target = target_string (members g), md_name = function_name \<rparr>)"

text \<open>
  The ordering rule in the specification's words: the names of one argument's rows, its
  elements in ascending index order.
\<close>

definition element_names :: "halide_type_t list \<Rightarrow> string \<Rightarrow> string list" where
  "element_names ts nm =
     (case ts of [t] \<Rightarrow> [nm] | _ \<Rightarrow> map (\<lambda>j. nm @ ''.'' @ dec_digits j) [0..<length ts])"

definition descriptor_names :: "('f, 'e, 'z) GIOBase_scheme \<Rightarrow> string list" where
  "descriptor_names d =
     concat (map (\<lambda>i. element_names (types' d) (array_name d i)) [0..<array_size d])"

section \<open>The metadata test\<close>

text \<open>
  The names of \<open>kExpectedArguments\<close> in \<open>check_metadata\<close>, in the order of the table, and
  the rows the test compares with: the table from its first row when the user context
  is expected, from its second row otherwise.
\<close>

definition kExpectedArguments_names :: "string list" where
  "kExpectedArguments_names =
     [''__user_context'', ''input'', ''b'', ''i8'', ''i16'', ''i32'', ''i64'',
      ''u8'', ''u16'', ''u32'', ''u64'', ''f32'', ''f64'', ''h'',
      ''input_not_nod'', ''input_nod'', ''input_not'',
      ''array_input_0'', ''array_input_1'', ''array2_input_0'', ''array2_input_1'',
      ''array_i8_0'', ''array_i8_1'', ''array2_i8_0'', ''array2_i8_1'',
      ''array_i16_0'', ''array_i16_1'', ''array2_i16_0'', ''array2_i16_1'',
      ''array_i32_0'', ''array_i32_1'', ''array2_i32_0'', ''array2_i32_1'',
      ''array_h_0'', ''array_h_1'',
      ''output.0'', ''output.1'', ''output_scalar'',
      ''array_outputs_0'', ''array_outputs_1'', ''array_outputs2_0'', ''array_outputs2_1'',
      ''array_outputs3_0'', ''array_outputs3_1'']"

definition expected_names :: "bool \<Rightarrow> string list" where
  "expected_names expect_ucon_at_0 =
     drop (if expect_ucon_at_0 then 0 else 1) kExpectedArguments_names"

text \<open>
  A row of \<open>kExpectedArguments\<close> as its initialiser writes it: name, kind, dimensions,
  type, and the three pointers.
\<close>

definition expected_row ::
  "string \<Rightarrow> halide_argument_kind_t \<Rightarrow> int \<Rightarrow> halide_type_t \<Rightarrow> halide_scalar_value_t option
     \<Rightarrow> halide_scalar_value_t option \<Rightarrow> halide_scalar_value_t option \<Rightarrow> halide_filter_argument_t" where
  "expected_row nm k d t df lo hi =
     \<lparr> arg_name = nm, arg_kind = k, arg_dimensions = d, arg_type = t,
       arg_def = df, arg_min = lo, arg_max = hi \<rparr>"

text \<open>
  The rows of \<open>kExpectedArguments\<close> for the inputs (the rows after \<open>__user_context\<close> and
  before \<open>output.0\<close>), with every field. \<open>make_scalar<float>\<close> and \<open>make_scalar<double>\<close>
  are written as the IEEE bits of their arguments: 32.1234f is 0x42007E5D, 3200.1234f is
  0x454801F9, 64.25 is 0x4050100000000000, 6400.25 is 0x40B9004000000000, and the sign
  bit is set for the negative ones.
\<close>

definition kExpectedArguments_inputs :: "halide_filter_argument_t list" where
  "kExpectedArguments_inputs =
     [expected_row ''input'' halide_argument_kind_input_buffer 3 (UInt_t 8) None None None,
      expected_row ''b'' halide_argument_kind_input_scalar 0 (UInt_t 1) (Some (make_scalar 8 1)) None None,
      expected_row ''i8'' halide_argument_kind_input_scalar 0 (Int_t 8)
        (Some (make_scalar 8 8)) (Some (make_scalar 8 (- 8))) (Some (make_scalar 8 127)),
      expected_row ''i16'' halide_argument_kind_input_scalar 0 (Int_t 16)
        (Some (make_scalar 16 16)) (Some (make_scalar 16 (- 16))) (Some (make_scalar 16 127)),
      expected_row ''i32'' halide_argument_kind_input_scalar 0 (Int_t 32)
        (Some (make_scalar 32 32)) (Some (make_scalar 32 (- 32))) (Some (make_scalar 32 127)),
      expected_row ''i64'' halide_argument_kind_input_scalar 0 (Int_t 64)
        (Some (make_scalar 64 64)) (Some (make_scalar 64 (- 64))) (Some (make_scalar 64 127)),
      expected_row ''u8'' halide_argument_kind_input_scalar 0 (UInt_t 8)
        (Some (make_scalar 8 80)) (Some (make_scalar 8 8)) (Some (make_scalar 8 255)),
      expected_row ''u16'' halide_argument_kind_input_scalar 0 (UInt_t 16)
        (Some (make_scalar 16 160)) (Some (make_scalar 16 16)) (Some (make_scalar 16 2550)),
      expected_row ''u32'' halide_argument_kind_input_scalar 0 (UInt_t 32)
        (Some (make_scalar 32 320)) (Some (make_scalar 32 32)) (Some (make_scalar 32 2550)),
      expected_row ''u64'' halide_argument_kind_input_scalar 0 (UInt_t 64)
        (Some (make_scalar 64 640)) (Some (make_scalar 64 64)) (Some (make_scalar 64 2550)),
      expected_row ''f32'' halide_argument_kind_input_scalar 0 (Float_t 32)
        (Some 0x42007E5D) (Some 0xC54801F9) (Some 0x454801F9),
      expected_row ''f64'' halide_argument_kind_input_scalar 0 (Float_t 64)
        (Some 0x4050100000000000) (Some 0xC0B9004000000000) (Some 0x40B9004000000000),
      expected_row ''h'' halide_argument_kind_input_scalar 0 Handle_t None None None,
      expected_row ''input_not_nod'' halide_argument_kind_input_buffer 3 (UInt_t 8) None None None,
      expected_row ''input_nod'' halide_argument_kind_input_buffer 3 (UInt_t 8) None None None,
      expected_row ''input_not'' halide_argument_kind_input_buffer 3 (UInt_t 8) None None None,
      expected_row ''array_input_0'' halide_argument_kind_input_buffer 3 (UInt_t 8) None None None,
      expected_row ''array_input_1'' halide_argument_kind_input_buffer 3 (UInt_t 8) None None None,
      expected_row ''array2_input_0'' halide_argument_kind_input_buffer 3 (UInt_t 8) None None None,
      expected_row ''array2_input_1'' halide_argument_kind_input_buffer 3 (UInt_t 8) None None None,
      expected_row ''array_i8_0'' halide_argument_kind_input_scalar 0 (Int_t 8) (Some (make_scalar 8 0)) None None,
      expected_row ''array_i8_1'' halide_argument_kind_input_scalar 0 (Int_t 8) (Some (make_scalar 8 0)) None None,
      expected_row ''array2_i8_0'' halide_argument_kind_input_scalar 0 (Int_t 8) (Some (make_scalar 8 0)) None None,
      expected_row ''array2_i8_1'' halide_argument_kind_input_scalar 0 (Int_t 8) (Some (make_scalar 8 0)) None None,
      expected_row ''array_i16_0'' halide_argument_kind_input_scalar 0 (Int_t 16) (Some (make_scalar 16 16)) None None,
      expected_row ''array_i16_1'' halide_argument_kind_input_scalar 0 (Int_t 16) (Some (make_scalar 16 16)) None None,
      expected_row ''array2_i16_0'' halide_argument_kind_input_scalar 0 (Int_t 16) (Some (make_scalar 16 16)) None None,
      expected_row ''array2_i16_1'' halide_argument_kind_input_scalar 0 (Int_t 16) (Some (make_scalar 16 16)) None None,
      expected_row ''array_i32_0'' halide_argument_kind_input_scalar 0 (Int_t 32)
        (Some (make_scalar 32 32)) (Some (make_scalar 32 (- 32))) (Some (make_scalar 32 127)),
      expected_row ''array_i32_1'' halide_argument_kind_input_scalar 0 (Int_t 32)
        (Some (make_scalar 32 32)) (Some (make_scalar 32 (- 32))) (Some (make_scalar 32 127)),
      expected_row ''array2_i32_0'' halide_argument_kind_input_scalar 0 (Int_t 32)
        (Some (make_scalar 32 32)) (Some (make_scalar 32 (- 32))) (Some (make_scalar 32 127)),
      expected_row ''array2_i32_1'' halide_argument_kind_input_scalar 0 (Int_t 32)
        (Some (make_scalar 32 32)) (Some (make_scalar 32 (- 32))) (Some (make_scalar 32 127)),
      expected_row ''array_h_0'' halide_argument_kind_input_scalar 0 Handle_t None None None,
      expected_row ''array_h_1'' halide_argument_kind_input_scalar 0 Handle_t None None None]"

text \<open>
  The declarations of the generator under test, read off the test's call of
  \<open>metadata_tester\<close> (the comment on each argument gives the declared type) and off the
  expected rows (names, types, dimensions, defaults and bounds); an array input whose
  expected default is 0 is declared with its name only. A handle is the name of the
  parameter or of the function it stands for.
\<close>

definition metadata_tester_inputs :: "(string, string) GeneratorInput list" where
  "metadata_tester_inputs =
     [GeneratorInput_Func False 1 ''input'' (UInt_t 8) 3,
      GeneratorInput_def ''b'' Bool_t (make_scalar 8 1),
      GeneratorInput_def_min_max ''i8'' (Int_t 8) (make_scalar 8 8) (make_scalar 8 (- 8)) (make_scalar 8 127),
      GeneratorInput_def_min_max ''i16'' (Int_t 16) (make_scalar 16 16) (make_scalar 16 (- 16)) (make_scalar 16 127),
      GeneratorInput_def_min_max ''i32'' (Int_t 32) (make_scalar 32 32) (make_scalar 32 (- 32)) (make_scalar 32 127),
      GeneratorInput_def_min_max ''i64'' (Int_t 64) (make_scalar 64 64) (make_scalar 64 (- 64)) (make_scalar 64 127),
      GeneratorInput_def_min_max ''u8'' (UInt_t 8) (make_scalar 8 80) (make_scalar 8 8) (make_scalar 8 255),
      GeneratorInput_def_min_max ''u16'' (UInt_t 16) (make_scalar 16 160) (make_scalar 16 16) (make_scalar 16 2550),
      GeneratorInput_def_min_max ''u32'' (UInt_t 32) (make_scalar 32 320) (make_scalar 32 32) (make_scalar 32 2550),
      GeneratorInput_def_min_max ''u64'' (UInt_t 64) (make_scalar 64 640) (make_scalar 64 64) (make_scalar 64 2550),
      GeneratorInput_def_min_max ''f32'' (Float_t 32) 0x42007E5D 0xC54801F9 0x454801F9,
      GeneratorInput_def_min_max ''f64'' (Float_t 64)
        0x4050100000000000 0xC0B9004000000000 0x40B9004000000000,
      GeneratorInput_n ''h'' Handle_t,
      GeneratorInput_Func False 1 ''input_not_nod'' (UInt_t 8) 3,
      GeneratorInput_Func False 1 ''input_nod'' (UInt_t 8) 3,
      GeneratorInput_Func False 1 ''input_not'' (UInt_t 8) 3,
      GeneratorInput_Func True 2 ''array_input'' (UInt_t 8) 3,
      GeneratorInput_Func True 2 ''array2_input'' (UInt_t 8) 3,
      GeneratorInput_array_n 2 ''array_i8'' (Int_t 8),
      GeneratorInput_array_n 2 ''array2_i8'' (Int_t 8),
      GeneratorInput_array_def 2 ''array_i16'' (Int_t 16) (make_scalar 16 16),
      GeneratorInput_array_def 2 ''array2_i16'' (Int_t 16) (make_scalar 16 16),
      GeneratorInput_array_def_min_max True 2 ''array_i32'' (Int_t 32)
        (make_scalar 32 32) (Some (make_scalar 32 (- 32))) (Some (make_scalar 32 127)),
      GeneratorInput_array_def_min_max True 2 ''array2_i32'' (Int_t 32)
        (make_scalar 32 32) (Some (make_scalar 32 (- 32))) (Some (make_scalar 32 127)),
      GeneratorInput_array_n 2 ''array_h'' Handle_t]"

definition metadata_tester_outputs :: "(string, string) GIOBase list" where
  "metadata_tester_outputs =
     [GeneratorOutput False 1 ''output'' [Float_t 32, Float_t 32] 3,
      GeneratorOutput False 1 ''output_scalar'' [Float_t 32] 0,
      GeneratorOutput True 2 ''array_outputs'' [Float_t 32] 3,
      GeneratorOutput True 2 ''array_outputs2'' [Float_t 32] 3,
      GeneratorOutput True 2 ''array_outputs3'' [Float_t 32] 0]"

definition metadata_tester :: "bool \<Rightarrow> (string, string) declarations GeneratorBase" where
  "metadata_tester ucon =
     (new_generator
        \<lparr> filter_inputs = map (init_internals param_name param_name) metadata_tester_inputs,
          filter_outputs = metadata_tester_outputs,
          user_context = ucon, target_string = ''x86-64'' \<rparr>)
     \<lparr>generate_called := True, schedule_called := True, build_pipeline_called := True\<rparr>"

section \<open>Generator registry\<close>

text \<open>
  \<open>SimpleGeneratorFactory\<close>: the creation function (a null \<open>unique_ptr\<close> is \<open>None\<close>) and
  the wrapper class name.
\<close>

record 'u SimpleGeneratorFactory =
  create_func :: "unit \<Rightarrow> 'u GeneratorBase option"
  wrapper_class_name_F :: string

definition set_wrapper_class_name ::
  "string \<Rightarrow> 'u GeneratorBase \<Rightarrow> (unit, 'u GeneratorBase) outcome" where
  "set_wrapper_class_name n g =
     (if wrapper_class_name g \<noteq> [] then (Inl (InternalError ''wrapper_class_name.empty()''), g)
      else (Inr (), g\<lparr>wrapper_class_name := n\<rparr>))"

text \<open>
  \<open>SimpleGeneratorFactory::create\<close>. \<open>set_generator_param_values\<close> is declared in the
  header and defined elsewhere: it is the parameter \<open>sgpv\<close>.
\<close>

definition SimpleGeneratorFactory_create ::
  "((string \<times> string) list \<Rightarrow> 'u GeneratorBase \<Rightarrow> (unit, 'u GeneratorBase) outcome)
     \<Rightarrow> 'u SimpleGeneratorFactory \<Rightarrow> (string \<times> string) list \<Rightarrow> error + 'u GeneratorBase" where
  "SimpleGeneratorFactory_create sgpv f params =
     (case create_func f () of
        None \<Rightarrow> Inl (InternalError ''g.get() != nullptr'')
      | Some g \<Rightarrow>
          (case set_wrapper_class_name (wrapper_class_name_F f) g of
             (Inl e, g1) \<Rightarrow> Inl e
           | (Inr u, g1) \<Rightarrow>
               (case sgpv params g1 of
                  (Inl e, g2) \<Rightarrow> Inl e
                | (Inr u', g2) \<Rightarrow> Inr g2)))"

text \<open>The registry is its \<open>factories\<close>, the map from names to factories.\<close>

type_synonym 'u GeneratorRegistry = "string \<rightharpoonup> 'u SimpleGeneratorFactory"

text \<open>
  Modelled from the spec: \<open>GeneratorRegistry::register_factory\<close>, declared in the header
  and defined elsewhere: a name that is present fails with DuplicateName and the map
  stays as it is, an absent name is bound to the factory.
\<close>

definition register_factory ::
  "string \<Rightarrow> 'u SimpleGeneratorFactory \<Rightarrow> 'u GeneratorRegistry \<Rightarrow> (unit, 'u GeneratorRegistry) outcome" where
  "register_factory name factory registry =
     (case registry name of
        Some f \<Rightarrow> (Inl (InternalError ''DuplicateName''), registry)
      | None \<Rightarrow> (Inr (), registry(name \<mapsto> factory)))"

text \<open>
  Modelled from the spec: \<open>GeneratorRegistry::create\<close>, declared in the header and defined
  elsewhere: an absent name fails with NotFound, a present one runs its factory.
\<close>

definition create ::
  "((string \<times> string) list \<Rightarrow> 'u GeneratorBase \<Rightarrow> (unit, 'u GeneratorBase) outcome)
     \<Rightarrow> string \<Rightarrow> (string \<times> string) list \<Rightarrow> 'u GeneratorRegistry \<Rightarrow> error + 'u GeneratorBase" where
  "create sgpv name params registry =
     (case registry name of
        None \<Rightarrow> Inl (UserError ''NotFound'')
      | Some f \<Rightarrow> SimpleGeneratorFactory_create sgpv f params)"

text \<open>
  The instances of the examples keep the overrides applied to them; \<open>apply_overrides\<close>
  puts each pair in front of them.
\<close>

definition apply_overrides ::
  "(string \<times> string) list \<Rightarrow> (string \<times> string) list GeneratorBase
     \<Rightarrow> (unit, (string \<times> string) list GeneratorBase) outcome" where
  "apply_overrides params g = (Inr (), g\<lparr>members := params @ members g\<rparr>)"

definition example_factory :: "(string \<times> string) list SimpleGeneratorFactory" where
  "example_factory = \<lparr>create_func = (\<lambda>u. Some (new_generator [])), wrapper_class_name_F = ''W''\<rparr>"

section \<open>Lifecycle: order and single invocation\<close>

lemma call_generate_impl_sets_flag:
  assumes "call_generate_impl M g = (Inr u, g')"
  shows "generate_called g'"
  using assms
  by (auto simp: call_generate_impl_def split: if_splits prod.splits sum.splits)

lemma call_schedule_impl_sets_flags:
  assumes "call_schedule_impl M g = (Inr u, g')"
  shows "schedule_called g'"
  using assms
  by (auto simp: call_schedule_impl_def split: if_splits prod.splits sum.splits)

lemma build_pipeline_impl_build_sets_flag:
  assumes "build_pipeline_impl_build M g = (Inr p, g')"
  shows "build_pipeline_called g'"
  using assms
  by (auto simp: build_pipeline_impl_build_def split: if_splits prod.splits sum.splits)

text \<open>
  C2. In the phased protocol \<open>schedule()\<close> before \<open>generate()\<close> fails; a second
  \<open>generate()\<close>, a second \<open>schedule()\<close> and, in the one-shot protocol, a second \<open>build()\<close>
  on the same instance fail; each of these failures leaves the instance exactly as the
  first successful call left it.
\<close>

theorem lifecycle_order_and_single_invocation:
  "(\<not> generate_called g0 \<longrightarrow>
      failed (call_schedule_impl M g0) \<and> snd (call_schedule_impl M g0) = g0)
   \<and> (call_generate_impl M ga = (Inr u, g1) \<longrightarrow>
      failed (call_generate_impl M g1) \<and> snd (call_generate_impl M g1) = g1)
   \<and> (call_schedule_impl M gb = (Inr u, g2) \<longrightarrow>
      failed (call_schedule_impl M g2) \<and> snd (call_schedule_impl M g2) = g2)
   \<and> (build_pipeline_impl_build M gc = (Inr p, g3) \<longrightarrow>
      failed (build_pipeline_impl_build M g3) \<and> snd (build_pipeline_impl_build M g3) = g3)"
proof (intro conjI impI)
  assume "\<not> generate_called g0"
  then show "failed (call_schedule_impl M g0)" "snd (call_schedule_impl M g0) = g0"
    by (simp_all add: call_schedule_impl_def failed_def)
next
  assume "call_generate_impl M ga = (Inr u, g1)"
  then have "generate_called g1" by (rule call_generate_impl_sets_flag)
  then show "failed (call_generate_impl M g1)" "snd (call_generate_impl M g1) = g1"
    by (simp_all add: call_generate_impl_def failed_def)
next
  assume a: "call_schedule_impl M gb = (Inr u, g2)"
  then have s: "schedule_called g2" by (rule call_schedule_impl_sets_flags)
  show "failed (call_schedule_impl M g2)" "snd (call_schedule_impl M g2) = g2"
    using s by (simp_all add: call_schedule_impl_def failed_def)
next
  assume "build_pipeline_impl_build M gc = (Inr p, g3)"
  then have "build_pipeline_called g3" by (rule build_pipeline_impl_build_sets_flag)
  then show "failed (build_pipeline_impl_build M g3)" "snd (build_pipeline_impl_build M g3) = g3"
    by (simp_all add: build_pipeline_impl_build_def failed_def)
qed

theorem lifecycle_order_and_single_invocation_witness:
  "\<not> generate_called (new_generator ([] :: string list))
   \<and> failed (call_schedule_impl logging_methods (new_generator []))
   \<and> snd (call_schedule_impl logging_methods (new_generator [])) = new_generator []
   \<and> call_generate_impl logging_methods (new_generator [])
       = (Inr (), (new_generator [''generate''])\<lparr>generate_called := True\<rparr>)
   \<and> failed (call_generate_impl logging_methods
         ((new_generator [''generate''])\<lparr>generate_called := True\<rparr>))
   \<and> call_schedule_impl logging_methods ((new_generator [''generate''])\<lparr>generate_called := True\<rparr>)
       = (Inr (), (new_generator [''generate'', ''schedule''])
            \<lparr>generate_called := True, schedule_called := True\<rparr>)
   \<and> failed (call_schedule_impl logging_methods
         ((new_generator [''generate'', ''schedule''])
            \<lparr>generate_called := True, schedule_called := True\<rparr>))
   \<and> build_pipeline_impl_build logging_methods (new_generator [])
       = (Inr [''build''], (new_generator [''build''])\<lparr>build_pipeline_called := True\<rparr>)
   \<and> failed (build_pipeline_impl_build logging_methods
         ((new_generator [''build''])\<lparr>build_pipeline_called := True\<rparr>))
   \<and> snd (build_pipeline_impl_build logging_methods
         ((new_generator [''build''])\<lparr>build_pipeline_called := True\<rparr>))
       = (new_generator [''build''])\<lparr>build_pipeline_called := True\<rparr>"
proof -
  have g: "call_generate_impl logging_methods (new_generator [])
       = (Inr (), (new_generator [''generate''])\<lparr>generate_called := True\<rparr>)"
    by (simp add: call_generate_impl_def logging_methods_def new_generator_def)
  have s: "call_schedule_impl logging_methods ((new_generator [''generate''])\<lparr>generate_called := True\<rparr>)
       = (Inr (), (new_generator [''generate'', ''schedule''])
            \<lparr>generate_called := True, schedule_called := True\<rparr>)"
    by (simp add: call_schedule_impl_def logging_methods_def new_generator_def)
  have b: "build_pipeline_impl_build logging_methods (new_generator [])
       = (Inr [''build''], (new_generator [''build''])\<lparr>build_pipeline_called := True\<rparr>)"
    by (simp add: build_pipeline_impl_build_def logging_methods_def new_generator_def)
  have n: "\<not> generate_called (new_generator ([] :: string list))"
    by (simp add: new_generator_def)
  show ?thesis
    using n g s b
      lifecycle_order_and_single_invocation
        [of "new_generator []" logging_methods "new_generator []" "()"
            "(new_generator [''generate''])\<lparr>generate_called := True\<rparr>"
            "(new_generator [''generate''])\<lparr>generate_called := True\<rparr>"
            "(new_generator [''generate'', ''schedule''])
               \<lparr>generate_called := True, schedule_called := True\<rparr>"
            "new_generator []" "[''build'']"
            "(new_generator [''build''])\<lparr>build_pipeline_called := True\<rparr>"]
    by simp
qed

section \<open>Configuration values: bounds\<close>

text \<open>
  C3. For an arithmetic configuration value with bounds \<open>min\<close> and \<open>max\<close>, \<open>set v\<close> with
  \<open>v < min\<close> or \<open>v > max\<close> fails and leaves the stored value (the whole object)
  unchanged, and \<open>set v\<close> with \<open>min \<le> v \<le> max\<close> succeeds and stores \<open>v\<close>. With
  \<open>min = 0\<close> and \<open>max = 10\<close>, \<open>set 11\<close> and \<open>set_from_string "11"\<close> fail (for a 32-bit
  \<open>int\<close> out of range, for an \<open>int8_t\<close> unparsed), and \<open>set 10\<close> and \<open>set 0\<close> succeed.
\<close>

theorem set_Arithmetic_bounds:
  "((v1 < min_GP p \<or> max_GP p < v1) \<longrightarrow>
      failed (set_Arithmetic v1 p) \<and> snd (set_Arithmetic v1 p) = p)
   \<and> ((min_GP p \<le> v2 \<and> v2 \<le> max_GP p) \<longrightarrow>
      fst (set_Arithmetic v2 p) = Inr () \<and> snd (set_Arithmetic v2 p) = p\<lparr>value' := v2\<rparr>
      \<and> value' (snd (set_Arithmetic v2 p)) = v2)
   \<and> failed (set_Arithmetic 11 \<lparr>value' = x, min_GP = 0, max_GP = (10::int)\<rparr>)
   \<and> failed (set_from_string_Arithmetic (extract_signed 32) ''11''
               \<lparr>value' = x, min_GP = 0, max_GP = (10::int)\<rparr>)
   \<and> snd (set_from_string_Arithmetic (extract_signed 32) ''11''
               \<lparr>value' = x, min_GP = 0, max_GP = (10::int)\<rparr>)
       = \<lparr>value' = x, min_GP = 0, max_GP = 10\<rparr>
   \<and> failed (set_from_string_Arithmetic extract_int8 ''11''
               \<lparr>value' = x, min_GP = 0, max_GP = (10::int)\<rparr>)
   \<and> set_Arithmetic 10 \<lparr>value' = x, min_GP = 0, max_GP = (10::int)\<rparr>
       = (Inr (), \<lparr>value' = 10, min_GP = 0, max_GP = 10\<rparr>)
   \<and> set_Arithmetic 0 \<lparr>value' = x, min_GP = 0, max_GP = (10::int)\<rparr>
       = (Inr (), \<lparr>value' = 0, min_GP = 0, max_GP = 10\<rparr>)"
proof -
  have e: "extract_signed 32 ''11'' = (Some 11, [])"
    by (simp add: extract_signed_def isspace_def isdigit_def digits_value_def)
  have e8: "extract_int8 ''11'' = (Some 49, ''1'')"
    by (simp add: extract_int8_def isspace_def)
  show ?thesis
    by (auto simp: set_Arithmetic_def set_from_string_Arithmetic_def failed_def e e8)
qed

theorem set_Arithmetic_bounds_witness:
  "((-3::int) < min_GP \<lparr>value' = 5, min_GP = 0, max_GP = 10\<rparr>
      \<or> max_GP \<lparr>value' = 5, min_GP = 0, max_GP = 10\<rparr> < (-3::int))
   \<and> failed (set_Arithmetic (-3) \<lparr>value' = 5, min_GP = 0, max_GP = (10::int)\<rparr>)
   \<and> snd (set_Arithmetic (-3) \<lparr>value' = 5, min_GP = 0, max_GP = (10::int)\<rparr>)
       = \<lparr>value' = 5, min_GP = 0, max_GP = 10\<rparr>
   \<and> (min_GP \<lparr>value' = 5, min_GP = 0, max_GP = 10\<rparr> \<le> (7::int)
      \<and> (7::int) \<le> max_GP \<lparr>value' = 5, min_GP = 0, max_GP = 10\<rparr>)
   \<and> snd (set_Arithmetic 7 \<lparr>value' = 5, min_GP = 0, max_GP = (10::int)\<rparr>)
       = \<lparr>value' = 7, min_GP = 0, max_GP = 10\<rparr>"
  using set_Arithmetic_bounds [of "-3" "\<lparr>value' = 5, min_GP = 0, max_GP = (10::int)\<rparr>" 7 0]
  by simp

section \<open>Configuration values: parsing\<close>

text \<open>
  Whatever the extraction of \<open>T\<close> is, \<open>set_from_string s\<close> fails whenever the extraction
  fails, leaves characters of \<open>s\<close> unread, or yields a value outside the bounds; for a
  bool configuration value it fails on every text other than \<open>true\<close> and \<open>false\<close>. After
  such a failure the object is as it was. With the decimal extraction of the integer
  types wider than a byte this is the rule of the canonical grammar.
\<close>

lemma set_from_string_rejects:
  "((fst (ext s) = None \<or> snd (ext s) \<noteq> []
       \<or> (\<exists>t. fst (ext s) = Some t \<and> (t < min_GP p \<or> max_GP p < t))) \<longrightarrow>
      failed (set_from_string_Arithmetic ext s p) \<and> snd (set_from_string_Arithmetic ext s p) = p)
   \<and> ((sb \<noteq> ''true'' \<and> sb \<noteq> ''false'') \<longrightarrow>
      failed (set_from_string_Bool sb pb) \<and> snd (set_from_string_Bool sb pb) = pb)"
proof (intro conjI impI)
  assume a: "fst (ext s) = None \<or> snd (ext s) \<noteq> []
       \<or> (\<exists>t. fst (ext s) = Some t \<and> (t < min_GP p \<or> max_GP p < t))"
  obtain r rest where e: "ext s = (r, rest)" by (cases "ext s")
  show "failed (set_from_string_Arithmetic ext s p)"
    using a e
    by (auto simp: set_from_string_Arithmetic_def set_Arithmetic_def failed_def
        split: option.splits list.splits)
  show "snd (set_from_string_Arithmetic ext s p) = p"
    using a e
    by (auto simp: set_from_string_Arithmetic_def set_Arithmetic_def
        split: option.splits list.splits)
next
  assume "sb \<noteq> ''true'' \<and> sb \<noteq> ''false''"
  then show "failed (set_from_string_Bool sb pb)" "snd (set_from_string_Bool sb pb) = pb"
    by (simp_all add: set_from_string_Bool_def failed_def)
qed

lemma set_from_string_rejects_examples:
  "snd (extract_signed 32 ''11x'') \<noteq> []
   \<and> failed (set_from_string_Arithmetic (extract_signed 32) ''11x''
               \<lparr>value' = 5, min_GP = 0, max_GP = 20\<rparr>)
   \<and> fst (extract_signed 32 ''12'') = Some 12
   \<and> max_GP \<lparr>value' = 5, min_GP = 0, max_GP = 10\<rparr> < (12::int)
   \<and> failed (set_from_string_Arithmetic (extract_signed 32) ''12''
               \<lparr>value' = 5, min_GP = 0, max_GP = 10\<rparr>)
   \<and> snd (set_from_string_Arithmetic (extract_signed 32) ''12''
               \<lparr>value' = 5, min_GP = 0, max_GP = 10\<rparr>)
       = \<lparr>value' = 5, min_GP = 0, max_GP = 10\<rparr>
   \<and> fst (extract_signed 32 ''ten'') = None
   \<and> failed (set_from_string_Arithmetic (extract_signed 32) ''ten''
               \<lparr>value' = 5, min_GP = 0, max_GP = 10\<rparr>)
   \<and> ''truex'' \<noteq> ''true'' \<and> ''truex'' \<noteq> ''false''
   \<and> failed (set_from_string_Bool ''truex'' \<lparr>value' = False, min_GP = False, max_GP = True\<rparr>)
   \<and> snd (set_from_string_Bool ''truex'' \<lparr>value' = False, min_GP = False, max_GP = True\<rparr>)
       = \<lparr>value' = False, min_GP = False, max_GP = True\<rparr>"
proof -
  have e1: "extract_signed 32 ''11x'' = (Some 11, ''x'')"
    by (simp add: extract_signed_def isspace_def isdigit_def digits_value_def)
  have e2: "extract_signed 32 ''12'' = (Some 12, [])"
    by (simp add: extract_signed_def isspace_def isdigit_def digits_value_def)
  have e3: "extract_signed 32 ''ten'' = (None, ''ten'')"
    by (simp add: extract_signed_def isspace_def isdigit_def digits_value_def)
  show ?thesis
    using
      set_from_string_rejects [of "extract_signed 32" "''11x''"
        "\<lparr>value' = 5, min_GP = 0, max_GP = 20\<rparr>" "''truex''"
        "\<lparr>value' = False, min_GP = False, max_GP = True\<rparr>"]
      set_from_string_rejects [of "extract_signed 32" "''12''"
        "\<lparr>value' = 5, min_GP = 0, max_GP = 10\<rparr>" "''truex''"
        "\<lparr>value' = False, min_GP = False, max_GP = True\<rparr>"]
      set_from_string_rejects [of "extract_signed 32" "''ten''"
        "\<lparr>value' = 5, min_GP = 0, max_GP = 10\<rparr>" "''truex''"
        "\<lparr>value' = False, min_GP = False, max_GP = True\<rparr>"]
    by (simp add: e1 e2 e3)
qed

text \<open>
  C6 at a one-byte integer type. The text \<open>A\<close> is no decimal integer: the decimal
  extraction of an 8-bit integer fails on it and consumes none of it. For an \<open>int8_t\<close>
  configuration value, bounds -128 and 127, the extraction \<open>set_from_string\<close> uses is the
  character one: \<open>set_from_string "A"\<close> succeeds and stores 65. The text \<open>7 \<close>, a digit
  followed by a space the decimal extraction leaves unread, still fails.
\<close>

theorem int8_set_from_string_accepts_character:
  "extract_signed 8 ''A'' = (None, ''A'')
   \<and> set_from_string_Arithmetic extract_int8 ''A'' \<lparr>value' = 0, min_GP = - 128, max_GP = 127\<rparr>
     = (Inr (), \<lparr>value' = 65, min_GP = - 128, max_GP = 127\<rparr>)
   \<and> extract_signed 8 ''7 '' = (Some 7, '' '')
   \<and> failed (set_from_string_Arithmetic extract_int8 ''7 ''
               \<lparr>value' = 0, min_GP = - 128, max_GP = 127\<rparr>)"
proof -
  have a: "extract_signed 8 ''A'' = (None, ''A'')"
    by (simp add: extract_signed_def isspace_def isdigit_def digits_value_def)
  have b: "extract_int8 ''A'' = (Some 65, [])"
    by (simp add: extract_int8_def isspace_def)
  have c: "extract_signed 8 ''7 '' = (Some 7, '' '')"
    by (simp add: extract_signed_def isspace_def isdigit_def digits_value_def)
  have d: "extract_int8 ''7 '' = (Some 55, '' '')"
    by (simp add: extract_int8_def isspace_def)
  show ?thesis
    by (simp add: a b c d set_from_string_Arithmetic_def set_Arithmetic_def failed_def)
qed

section \<open>Configuration values: enumerations\<close>

lemma map_insert_keys: "fst ` set (map_insert kv m) = insert (fst kv) (fst ` set m)"
  by (induction m) auto

lemma map_insert_set: "set (map_insert kv m) \<subseteq> insert kv (set m)"
  by (induction m) auto

lemma map_insert_sorted:
  "sorted_wrt (<) (map fst m) \<Longrightarrow> sorted_wrt (<) (map fst (map_insert kv m))"
proof (induction m)
  case Nil
  then show ?case by simp
next
  case (Cons e m)
  have k: "\<And>y. y \<in> set (map_insert kv m) \<Longrightarrow> y = kv \<or> y \<in> set m"
    using map_insert_set [of kv m] by auto
  from Cons show ?case
    by (auto dest!: k)
qed

lemma std_map_sorted: "sorted_wrt (<) (map fst (std_map init))"
proof -
  have "sorted_wrt (<) (map fst m) \<Longrightarrow>
        sorted_wrt (<) (map fst (foldl (\<lambda>m kv. map_insert kv m) m init))" for m :: "(string \<times> 'a) list"
    by (induction init arbitrary: m) (simp_all add: map_insert_sorted)
  then show ?thesis by (simp add: std_map_def)
qed

lemma std_map_distinct: "distinct (map fst (std_map init))"
  using std_map_sorted [of init] by (simp add: strict_sorted_iff)

lemma std_map_keys: "fst ` set (std_map init) = fst ` set init"
proof -
  have "fst ` set (foldl (\<lambda>m kv. map_insert kv m) m init) = fst ` set m \<union> fst ` set init"
    for m :: "(string \<times> 'a) list"
    by (induction init arbitrary: m) (auto simp: map_insert_keys)
  then show ?thesis by (simp add: std_map_def)
qed

lemma enum_to_string_found:
  "(s, v) \<in> set m \<Longrightarrow> \<exists>k. enum_to_string m v = Inr k \<and> (k, v) \<in> set m"
  by (induction m) auto

lemma enum_to_string_unique:
  assumes "(s, v) \<in> set m" and "\<forall>k. (k, v) \<in> set m \<longrightarrow> k = s"
  shows "enum_to_string m v = Inr s"
  using enum_to_string_found [OF assms(1)] assms(2) by auto

lemma set_from_string_Enum_fails_iff:
  "failed (set_from_string_Enum s p) \<longleftrightarrow> s \<notin> fst ` set (enum_map p)"
  by (simp add: set_from_string_Enum_def failed_def map_of_eq_None_iff [symmetric]
      split: option.splits)

lemma set_from_string_Enum_to_string:
  assumes d: "distinct (map fst (enum_map p))"
    and ok: "set_from_string_Enum s p = (Inr (), p')"
    and u: "\<forall>k. k \<noteq> s \<longrightarrow> map_of (enum_map p) k \<noteq> map_of (enum_map p) s"
  shows "to_string_Enum p' = Inr s"
proof -
  from ok obtain v where v: "map_of (enum_map p) s = Some v" and p': "p' = p\<lparr>value' := v\<rparr>"
    by (auto simp: set_from_string_Enum_def split: option.splits)
  have m: "(s, v) \<in> set (enum_map p)" using v by (rule map_of_SomeD)
  have "\<forall>k. (k, v) \<in> set (enum_map p) \<longrightarrow> k = s"
    using u v d by (metis map_of_is_SomeI)
  then have "enum_to_string (enum_map p) v = Inr s"
    using m by (rule enum_to_string_unique [rotated])
  then show ?thesis by (simp add: to_string_Enum_def p')
qed

lemma enum_to_string_least:
  "sorted_wrt (<) (map fst m) \<Longrightarrow> enum_to_string m v = Inr k \<Longrightarrow> (k', v) \<in> set m \<Longrightarrow> k \<le> k'"
  by (induction m) (auto split: if_splits)

lemma bag_type_eq:
  "bag_type = \<lparr>value' = Paper, enum_map = [(''paper'', Paper), (''plastic'', Plastic)]\<rparr>"
  by (simp add: bag_type_def new_Enum_def std_map_def)

text \<open>
  C5, as the code has it. For an enum configuration value whose table is the
  \<open>std::map\<close> built from \<open>init\<close>: \<open>set_from_string\<close> fails exactly when its argument is
  not one of the table's names; after a successful \<open>set_from_string s\<close>, \<open>to_string\<close>
  returns the least name, in the map's key order, that the table binds to the value of
  \<open>s\<close>, which is \<open>s\<close> itself when no other name is bound to that value. With the table
  paper, plastic of the wrapper test, \<open>set_from_string "plastic"\<close> succeeds, \<open>to_string\<close>
  then returns \<open>plastic\<close>, and \<open>set_from_string "glass"\<close> fails.
\<close>

theorem enum_set_from_string_to_string:
  "enum_map p = std_map init \<longrightarrow>
     (failed (set_from_string_Enum s p) \<longleftrightarrow> s \<notin> fst ` set init)
     \<and> (set_from_string_Enum s p = (Inr (), p') \<longrightarrow>
          (\<exists>k. to_string_Enum p' = Inr k
             \<and> map_of (enum_map p) k = map_of (enum_map p) s
             \<and> (\<forall>k'. map_of (enum_map p) k' = map_of (enum_map p) s \<longrightarrow> k \<le> k'))
          \<and> ((\<forall>k. k \<noteq> s \<longrightarrow> map_of (enum_map p) k \<noteq> map_of (enum_map p) s) \<longrightarrow>
               to_string_Enum p' = Inr s))
     \<and> fst (set_from_string_Enum ''plastic'' bag_type) = Inr ()
     \<and> to_string_Enum (snd (set_from_string_Enum ''plastic'' bag_type)) = Inr ''plastic''
     \<and> failed (set_from_string_Enum ''glass'' bag_type)"
proof (intro impI conjI)
  assume m: "enum_map p = std_map init"
  show "failed (set_from_string_Enum s p) \<longleftrightarrow> s \<notin> fst ` set init"
    by (simp add: set_from_string_Enum_fails_iff m std_map_keys)
  have d: "distinct (map fst (enum_map p))" by (simp add: m std_map_distinct)
  have st: "sorted_wrt (<) (map fst (enum_map p))" by (simp add: m std_map_sorted)
  {
    assume ok: "set_from_string_Enum s p = (Inr (), p')"
    then obtain v where v: "map_of (enum_map p) s = Some v" and p': "p' = p\<lparr>value' := v\<rparr>"
      by (auto simp: set_from_string_Enum_def split: option.splits)
    have "(s, v) \<in> set (enum_map p)" using v by (rule map_of_SomeD)
    then obtain k where k: "enum_to_string (enum_map p) v = Inr k" "(k, v) \<in> set (enum_map p)"
      using enum_to_string_found by fastforce
    have kk: "map_of (enum_map p) k = map_of (enum_map p) s"
      using k(2) d v by simp
    have least: "\<forall>k'. map_of (enum_map p) k' = map_of (enum_map p) s \<longrightarrow> k \<le> k'"
      using enum_to_string_least [OF st k(1)] v by (auto dest: map_of_SomeD)
    show "\<exists>k. to_string_Enum p' = Inr k
             \<and> map_of (enum_map p) k = map_of (enum_map p) s
             \<and> (\<forall>k'. map_of (enum_map p) k' = map_of (enum_map p) s \<longrightarrow> k \<le> k')"
      using k(1) kk least by (auto simp: to_string_Enum_def p')
  }
  {
    assume ok: "set_from_string_Enum s p = (Inr (), p')"
      and u: "\<forall>k. k \<noteq> s \<longrightarrow> map_of (enum_map p) k \<noteq> map_of (enum_map p) s"
    show "to_string_Enum p' = Inr s"
      using d ok u by (rule set_from_string_Enum_to_string)
  }
next
  show "fst (set_from_string_Enum ''plastic'' bag_type) = Inr ()"
    by (simp add: bag_type_eq set_from_string_Enum_def)
  show "to_string_Enum (snd (set_from_string_Enum ''plastic'' bag_type)) = Inr ''plastic''"
    by (simp add: bag_type_eq set_from_string_Enum_def to_string_Enum_def)
  show "failed (set_from_string_Enum ''glass'' bag_type)"
    by (simp add: bag_type_eq set_from_string_Enum_def failed_def)
qed

theorem enum_set_from_string_to_string_witness:
  "enum_map bag_type = std_map [(''paper'', Paper), (''plastic'', Plastic)]
   \<and> set_from_string_Enum ''plastic'' bag_type
       = (Inr (), \<lparr>value' = Plastic, enum_map = [(''paper'', Paper), (''plastic'', Plastic)]\<rparr>)
   \<and> to_string_Enum \<lparr>value' = Plastic, enum_map = [(''paper'', Paper), (''plastic'', Plastic)]\<rparr>
       = Inr ''plastic''
   \<and> \<not> failed (set_from_string_Enum ''plastic'' bag_type)"
proof -
  have a: "enum_map bag_type = std_map [(''paper'', Paper), (''plastic'', Plastic)]"
    by (simp add: bag_type_def new_Enum_def)
  have b: "set_from_string_Enum ''plastic'' bag_type
       = (Inr (), \<lparr>value' = Plastic, enum_map = [(''paper'', Paper), (''plastic'', Plastic)]\<rparr>)"
    by (simp add: bag_type_eq set_from_string_Enum_def)
  have c: "\<forall>k. k \<noteq> ''plastic'' \<longrightarrow>
         map_of (enum_map bag_type) k \<noteq> map_of (enum_map bag_type) ''plastic''"
    by (simp add: bag_type_eq)
  show ?thesis
    using a b c
      enum_set_from_string_to_string [of bag_type "[(''paper'', Paper), (''plastic'', Plastic)]"
        "''plastic''" "\<lparr>value' = Plastic, enum_map = [(''paper'', Paper), (''plastic'', Plastic)]\<rparr>"]
    by simp
qed

text \<open>
  C5 as stated fails on a table that binds two names to one value: after
  \<open>set_from_string "paper"\<close> succeeds, \<open>to_string\<close> returns \<open>bag\<close>.
\<close>

theorem enum_to_string_alias_counterexample:
  "fst (set_from_string_Enum ''paper''
          (new_Enum Plastic [(''paper'', Paper), (''bag'', Paper), (''plastic'', Plastic)])) = Inr ()
   \<and> to_string_Enum (snd (set_from_string_Enum ''paper''
          (new_Enum Plastic [(''paper'', Paper), (''bag'', Paper), (''plastic'', Plastic)])))
       = Inr ''bag''
   \<and> ''bag'' \<noteq> ''paper''"
  by (simp add: new_Enum_def std_map_def set_from_string_Enum_def to_string_Enum_def)

section \<open>Argument descriptors: binding and the accessors' check\<close>

text \<open>
  The read \<open>funcs()\<close> succeeds exactly when the function list has \<open>array_size()\<close> elements
  and the expression list is empty, and \<open>exprs()\<close> the other way round. On a descriptor
  whose \<open>array_size()\<close> is at least 1 a read succeeds exactly in the states where exactly
  one list is populated, with \<open>array_size()\<close> elements; never both reads succeed.
\<close>

lemma accessors_check:
  "(funcs d = Inr fs \<longleftrightarrow> length (funcs' d) = array_size d \<and> exprs' d = [] \<and> fs = funcs' d)
   \<and> (exprs d = Inr es \<longleftrightarrow> length (exprs' d) = array_size d \<and> funcs' d = [] \<and> es = exprs' d)
   \<and> (0 < array_size d \<longrightarrow>
        ((\<not> isl (funcs d) \<or> \<not> isl (exprs d)) \<longleftrightarrow> exactly_one_populated d)
        \<and> \<not> (\<not> isl (funcs d) \<and> \<not> isl (exprs d))
        \<and> (\<not> exactly_one_populated d \<longrightarrow> isl (funcs d) \<and> isl (exprs d)))"
  by (auto simp: funcs_def exprs_def exactly_one_populated_def)

lemma all_funcs_length: "all_funcs inputs = Inr fs \<Longrightarrow> length fs = length inputs"
  by (induction inputs arbitrary: fs) (auto split: sum.splits)

lemma all_exprs_length: "all_exprs inputs = Inr xs \<Longrightarrow> length xs = length inputs"
  by (induction inputs arbitrary: xs) (auto split: sum.splits)

lemma array_size_update [simp]:
  "array_size (d\<lparr>funcs' := fs\<rparr>) = array_size d"
  "array_size (d\<lparr>exprs' := xs\<rparr>) = array_size d"
  by (simp_all add: array_size_def)

text \<open>
  Binding an input whose \<open>array_size()\<close> is at least 1 establishes the invariant, by
  \<open>set_inputs\<close> and by \<open>init_internals\<close> alike.
\<close>

lemma set_inputs_populates:
  assumes "set_inputs inputs inp = (Inr (), inp')" and "0 < array_size inp"
  shows "exactly_one_populated inp'"
proof (cases "kind' inp")
  case Scalar
  with assms obtain xs where "all_exprs inputs = Inr xs" "inp' = inp\<lparr>exprs' := xs, funcs' := []\<rparr>"
    "length inputs = array_size inp"
    by (auto simp: set_inputs_def split: if_splits sum.splits)
  then show ?thesis
    using assms(2) all_exprs_length [of inputs xs] by (auto simp: exactly_one_populated_def)
next
  case Function
  with assms obtain fs where "all_funcs inputs = Inr fs" "inp' = inp\<lparr>funcs' := fs, exprs' := []\<rparr>"
    "length inputs = array_size inp"
    by (auto simp: set_inputs_def split: if_splits sum.splits)
  then show ?thesis
    using assms(2) all_funcs_length [of inputs fs] by (auto simp: exactly_one_populated_def)
qed

lemma init_internals_populates:
  assumes "0 < array_size inp"
  shows "exactly_one_populated (init_internals mk_func mk_expr inp)"
  using assms
  by (cases "kind' inp")
     (auto simp: exactly_one_populated_def init_internals_def init_parameters_def
        set_def_min_max_impl_def array_size_def Let_def)

text \<open>
  C7 at an array of size 0: the array input of the wrapper test,
  \<open>Input<Func[]> input{ array_count, "input", input_type, 3 }\<close>, with \<open>array_count\<close> set
  to 0. Binding it to no value succeeds, and so does binding it inside the generator.
  After either, both lists are empty, so that no list is non-empty, and the reads
  \<open>funcs()\<close> and \<open>exprs()\<close> both succeed; the same holds of the descriptor before it is
  bound.
\<close>

theorem empty_array_breaks_invariant:
  "set_inputs [] (GeneratorInput_Func True 0 ''input'' (UInt_t 8) 3 :: (string, string) GeneratorInput)
     = (Inr (), GeneratorInput_Func True 0 ''input'' (UInt_t 8) 3)
   \<and> init_internals param_name param_name (GeneratorInput_Func True 0 ''input'' (UInt_t 8) 3)
     = GeneratorInput_Func True 0 ''input'' (UInt_t 8) 3
   \<and> funcs' (GeneratorInput_Func True 0 ''input'' (UInt_t 8) 3 :: (string, string) GeneratorInput) = []
   \<and> exprs' (GeneratorInput_Func True 0 ''input'' (UInt_t 8) 3 :: (string, string) GeneratorInput) = []
   \<and> \<not> exactly_one_populated
         (GeneratorInput_Func True 0 ''input'' (UInt_t 8) 3 :: (string, string) GeneratorInput)
   \<and> funcs (GeneratorInput_Func True 0 ''input'' (UInt_t 8) 3 :: (string, string) GeneratorInput) = Inr []
   \<and> exprs (GeneratorInput_Func True 0 ''input'' (UInt_t 8) 3 :: (string, string) GeneratorInput) = Inr []"
  by (simp add: set_inputs_def init_internals_def init_parameters_def set_def_min_max_impl_def
      exactly_one_populated_def funcs_def exprs_def array_size_def GeneratorInput_Func_def)

section \<open>Metadata: the order of the arguments\<close>

lemma foldl_append_concat: "foldl (\<lambda>acc x. acc @ f x) a xs = a @ concat (map f xs)"
  by (induction xs arbitrary: a) simp_all

lemma map_enumerate_index:
  "map (\<lambda>x. f (fst x)) (enumerate 0 ts) = map f [0..<length ts]"
proof -
  have "map f (map fst (enumerate 0 ts)) = map (\<lambda>x. f (fst x)) (enumerate 0 ts)"
    by (simp only: map_map comp_def)
  moreover have "map f (map fst (enumerate 0 ts)) = map f [0..<length ts]"
    by simp
  ultimately show ?thesis by simp
qed

lemma element_rows_names:
  assumes "\<And>nm t. arg_name (mk nm t) = nm"
  shows "map arg_name (element_rows mk ts nm) = element_names ts nm"
proof -
  have general: "map arg_name (map (\<lambda>(j, t). mk (nm @ ''.'' @ dec_digits j) t) (enumerate 0 ts))
        = map (\<lambda>j. nm @ ''.'' @ dec_digits j) [0..<length ts]"
    using map_enumerate_index [of "\<lambda>j. nm @ ''.'' @ dec_digits j" ts]
    by (simp add: comp_def case_prod_beta assms)
  show ?thesis
  proof (cases "\<exists>t. ts = [t]")
    case True
    then show ?thesis by (auto simp: element_rows_def element_names_def assms)
  next
    case False
    then have "element_rows mk ts nm = map (\<lambda>(j, t). mk (nm @ ''.'' @ dec_digits j) t) (enumerate 0 ts)"
      and "element_names ts nm = map (\<lambda>j. nm @ ''.'' @ dec_digits j) [0..<length ts]"
      by (auto simp: element_rows_def element_names_def split: list.splits)
    then show ?thesis using general by simp
  qed
qed

lemma input_row_names: "map arg_name (element_rows (input_row inp p) ts nm) = element_names ts nm"
  by (rule element_rows_names) (simp add: input_row_def Let_def)

lemma output_row_names: "map arg_name (element_rows (output_row out) ts nm) = element_names ts nm"
  by (rule element_rows_names) (simp add: output_row_def)

lemma input_rows_names:
  "map arg_name (input_rows (init_internals mkf mke inp)) = descriptor_names inp"
proof -
  have n: "map param_name (parameters' (init_internals mkf mke inp)) = map (array_name inp) [0..<array_size inp]"
    by (simp add: init_internals_def init_parameters_def set_def_min_max_impl_def
        set_def_min_max_1_def comp_def array_name_def array_size_def Let_def split: option.splits)
  have t: "types' (init_internals mkf mke inp) = types' inp"
    by (simp add: init_internals_def init_parameters_def set_def_min_max_impl_def Let_def)
  have "map arg_name (input_rows (init_internals mkf mke inp))
        = concat (map (\<lambda>p. element_names (types' inp) (param_name p)) (parameters' (init_internals mkf mke inp)))"
    by (simp add: input_rows_def foldl_append_concat map_concat comp_def input_row_names t)
  also have "\<dots> = concat (map (element_names (types' inp)) (map param_name (parameters' (init_internals mkf mke inp))))"
    by (simp add: comp_def)
  finally show ?thesis
    by (simp add: n descriptor_names_def comp_def)
qed

lemma output_rows_names: "map arg_name (output_rows out) = descriptor_names out"
  by (simp add: output_rows_def foldl_append_concat map_concat comp_def output_row_names
      descriptor_names_def)

lemma emit_metadata_names:
  assumes "built g" and "filter_inputs (members g) = map (init_internals mkf mke) ins"
  shows "\<exists>md. emit_metadata fn g = Inr md
       \<and> map arg_name (arguments md)
           = (if user_context (members g) then [''__user_context''] else [])
             @ concat (map descriptor_names ins)
             @ concat (map descriptor_names (filter_outputs (members g)))
       \<and> num_arguments md = int (length (arguments md))"
  using assms
  by (simp add: emit_metadata_def Let_def foldl_append_concat map_concat comp_def
      input_rows_names output_rows_names user_context_row_def)

lemma dec_digits_0: "dec_digits 0 = ''0''" by code_simp
lemma dec_digits_1: "dec_digits 1 = ''1''" by code_simp

lemma names_single:
  "\<not> is_array d \<Longrightarrow> array_size' d = 1 \<Longrightarrow> length (types' d) = 1 \<Longrightarrow> descriptor_names d = [name' d]"
  by (auto simp: descriptor_names_def array_size_def element_names_def array_name_def
      length_Suc_conv split: list.splits)

lemma names_array:
  "is_array d \<Longrightarrow> length (types' d) = 1 \<Longrightarrow>
   descriptor_names d = map (\<lambda>i. name' d @ ''_'' @ dec_digits i) [0..<array_size d]"
  by (auto simp: descriptor_names_def element_names_def array_name_def
      length_Suc_conv split: list.splits)

lemma names_array2:
  "is_array d \<Longrightarrow> array_size' d = 2 \<Longrightarrow> length (types' d) = 1 \<Longrightarrow>
   descriptor_names d = [name' d @ ''_0'', name' d @ ''_1'']"
proof -
  assume a: "is_array d" "array_size' d = 2" "length (types' d) = 1"
  have "array_size d = Suc (Suc 0)" by (simp add: array_size_def a)
  then have "[0..<array_size d] = [0, Suc 0]" by simp
  then show ?thesis
    using dec_digits_0 dec_digits_1 by (simp add: names_array a)
qed

lemma names_tuple2:
  "\<not> is_array d \<Longrightarrow> array_size' d = 1 \<Longrightarrow> length (types' d) = 2 \<Longrightarrow>
   descriptor_names d = [name' d @ ''.0'', name' d @ ''.1'']"
proof -
  assume a: "\<not> is_array d" "array_size' d = 1" "length (types' d) = 2"
  from a(3) obtain t1 t2 where t: "types' d = [t1, t2]"
    by (auto simp: length_Suc_conv numeral_2_eq_2)
  have "array_size d = Suc 0" by (simp add: array_size_def a)
  then show ?thesis
    using dec_digits_0 dec_digits_1
    by (simp add: descriptor_names_def element_names_def array_name_def a t)
qed

lemma metadata_tester_input_names:
  "concat (map descriptor_names metadata_tester_inputs)
   = take 34 (drop 1 kExpectedArguments_names)"
  by (simp add: metadata_tester_inputs_def kExpectedArguments_names_def names_single names_array2
      GeneratorInput_Func_def GeneratorInput_def_def GeneratorInput_def_min_max_def
      GeneratorInput_n_def GeneratorInput_array_n_def GeneratorInput_array_def_def
      GeneratorInput_array_def_min_max_def)

lemma metadata_tester_output_names:
  "concat (map descriptor_names metadata_tester_outputs)
   = drop 35 kExpectedArguments_names"
  by (simp add: metadata_tester_outputs_def kExpectedArguments_names_def names_single names_array2
      names_tuple2 GeneratorOutput_def)

text \<open>
  C1. For a built instance whose inputs were bound, the metadata record lists the
  implicit user context argument first when the instance has one, then the rows of every
  declared input in declaration order, then the rows of every declared output in
  declaration order; the rows of an array argument are its elements in ascending index
  order, the i-th named \<open>name_i\<close> with \<open>i\<close> from zero, and an argument that is not an
  array keeps its name. The order is the order of declaration and of the index, whatever
  the names and types are.
\<close>

theorem metadata_argument_order:
  "(built g \<and> filter_inputs (members g) = map (init_internals mkf mke) ins \<longrightarrow>
     (\<exists>md. emit_metadata fn g = Inr md
        \<and> map arg_name (arguments md)
            = (if user_context (members g) then [''__user_context''] else [])
              @ concat (map descriptor_names ins)
              @ concat (map descriptor_names (filter_outputs (members g)))
        \<and> num_arguments md = int (length (arguments md))))
   \<and> (is_array d \<and> length (types' d) = 1 \<longrightarrow>
        descriptor_names d = map (\<lambda>i. name' d @ ''_'' @ dec_digits i) [0..<array_size d])
   \<and> (\<not> is_array d \<and> array_size' d = 1 \<and> length (types' d) = 1 \<longrightarrow>
        descriptor_names d = [name' d])"
  using emit_metadata_names [of g mkf mke ins fn] names_array [of d] names_single [of d]
  by blast

theorem metadata_argument_order_witness:
  "\<forall>ucon. built (metadata_tester ucon)
   \<and> filter_inputs (members (metadata_tester ucon)) = map (init_internals param_name param_name) metadata_tester_inputs
   \<and> (\<exists>md. emit_metadata ''metadata_tester'' (metadata_tester ucon) = Inr md
        \<and> map arg_name (arguments md) = expected_names ucon
        \<and> num_arguments md = int (length (expected_names ucon)))
   \<and> is_array (GeneratorOutput True 2 ''array_outputs'' [Float_t 32] 3 :: (string, string) GIOBase)
   \<and> descriptor_names (GeneratorOutput True 2 ''array_outputs'' [Float_t 32] 3 :: (string, string) GIOBase)
       = [''array_outputs_0'', ''array_outputs_1'']
   \<and> \<not> is_array (GeneratorOutput False 1 ''output_scalar'' [Float_t 32] 0 :: (string, string) GIOBase)
   \<and> descriptor_names (GeneratorOutput False 1 ''output_scalar'' [Float_t 32] 0 :: (string, string) GIOBase)
       = [''output_scalar'']"
proof (intro allI)
  fix ucon
  have b: "built (metadata_tester ucon)"
    by (simp add: built_def metadata_tester_def)
  have i: "filter_inputs (members (metadata_tester ucon)) = map (init_internals param_name param_name) metadata_tester_inputs"
    and o: "filter_outputs (members (metadata_tester ucon)) = metadata_tester_outputs"
    and u: "user_context (members (metadata_tester ucon)) = ucon"
    by (simp_all add: metadata_tester_def new_generator_def)
  have n: "(if ucon then [''__user_context''] else [])
              @ take 34 (drop 1 kExpectedArguments_names) @ drop 35 kExpectedArguments_names
           = expected_names ucon"
    by (simp add: expected_names_def kExpectedArguments_names_def)
  have a2: "array_size (GeneratorOutput True 2 ''array_outputs'' [Float_t 32] 3 :: (string, string) GIOBase) = Suc (Suc 0)"
    by (simp add: array_size_def GeneratorOutput_def)
  have d1: "map (\<lambda>i. ''array_outputs'' @ ''_'' @ dec_digits i) [0..<Suc (Suc 0)]
            = [''array_outputs_0'', ''array_outputs_1'']"
    using dec_digits_0 dec_digits_1 by simp
  have g1: "is_array (GeneratorOutput True 2 ''array_outputs'' [Float_t 32] 3 :: (string, string) GIOBase)"
       "length (types' (GeneratorOutput True 2 ''array_outputs'' [Float_t 32] 3 :: (string, string) GIOBase)) = 1"
       "name' (GeneratorOutput True 2 ''array_outputs'' [Float_t 32] 3 :: (string, string) GIOBase) = ''array_outputs''"
    by (simp_all add: GeneratorOutput_def)
  have g2: "\<not> is_array (GeneratorOutput False 1 ''output_scalar'' [Float_t 32] 0 :: (string, string) GIOBase)"
       "array_size' (GeneratorOutput False 1 ''output_scalar'' [Float_t 32] 0 :: (string, string) GIOBase) = 1"
       "length (types' (GeneratorOutput False 1 ''output_scalar'' [Float_t 32] 0 :: (string, string) GIOBase)) = 1"
       "name' (GeneratorOutput False 1 ''output_scalar'' [Float_t 32] 0 :: (string, string) GIOBase) = ''output_scalar''"
    by (simp_all add: GeneratorOutput_def)
  note T = metadata_argument_order
         [of "metadata_tester ucon" param_name param_name metadata_tester_inputs "''metadata_tester''"
             "GeneratorOutput True 2 ''array_outputs'' [Float_t 32] 3 :: (string, string) GIOBase"]
  from T b i obtain md where md: "emit_metadata ''metadata_tester'' (metadata_tester ucon) = Inr md"
    "map arg_name (arguments md)
            = (if user_context (members (metadata_tester ucon)) then [''__user_context''] else [])
              @ concat (map descriptor_names metadata_tester_inputs)
              @ concat (map descriptor_names (filter_outputs (members (metadata_tester ucon))))"
    "num_arguments md = int (length (arguments md))"
    by blast
  have m2: "map arg_name (arguments md) = expected_names ucon"
    using md(2) n by (simp only: o u metadata_tester_input_names metadata_tester_output_names)
  have "length (arguments md) = length (map arg_name (arguments md))" by simp
  then have m3: "num_arguments md = int (length (expected_names ucon))"
    using md(3) m2 by simp
  have A: "\<exists>md. emit_metadata ''metadata_tester'' (metadata_tester ucon) = Inr md
        \<and> map arg_name (arguments md) = expected_names ucon
        \<and> num_arguments md = int (length (expected_names ucon))"
    using md(1) m2 m3 by blast
  have B: "descriptor_names (GeneratorOutput True 2 ''array_outputs'' [Float_t 32] 3 :: (string, string) GIOBase)
       = [''array_outputs_0'', ''array_outputs_1'']"
    using T g1 a2 d1 by (simp del: upt_Suc)
  from metadata_argument_order
         [of "metadata_tester ucon" param_name param_name metadata_tester_inputs "''metadata_tester''"
             "GeneratorOutput False 1 ''output_scalar'' [Float_t 32] 0 :: (string, string) GIOBase"]
  have C: "descriptor_names (GeneratorOutput False 1 ''output_scalar'' [Float_t 32] 0 :: (string, string) GIOBase)
       = [''output_scalar'']"
    using g2 by simp
  show "built (metadata_tester ucon)
   \<and> filter_inputs (members (metadata_tester ucon)) = map (init_internals param_name param_name) metadata_tester_inputs
   \<and> (\<exists>md. emit_metadata ''metadata_tester'' (metadata_tester ucon) = Inr md
        \<and> map arg_name (arguments md) = expected_names ucon
        \<and> num_arguments md = int (length (expected_names ucon)))
   \<and> is_array (GeneratorOutput True 2 ''array_outputs'' [Float_t 32] 3 :: (string, string) GIOBase)
   \<and> descriptor_names (GeneratorOutput True 2 ''array_outputs'' [Float_t 32] 3 :: (string, string) GIOBase)
       = [''array_outputs_0'', ''array_outputs_1'']
   \<and> \<not> is_array (GeneratorOutput False 1 ''output_scalar'' [Float_t 32] 0 :: (string, string) GIOBase)
   \<and> descriptor_names (GeneratorOutput False 1 ''output_scalar'' [Float_t 32] 0 :: (string, string) GIOBase)
       = [''output_scalar'']"
    using A B C b i g1 g2 by simp
qed


section \<open>Metadata: defaults and bounds of scalar inputs\<close>

lemma input_rows_init_internals:
  assumes "types' inp = [t]"
  shows "input_rows (init_internals mkf mke inp) =
     map (\<lambda>i. \<lparr> arg_name = array_name inp i,
                arg_kind = (if kind' inp = Function then halide_argument_kind_input_buffer
                            else halide_argument_kind_input_scalar),
                arg_dimensions = dimensions' inp,
                arg_type = t,
                arg_def = (if kind' inp = Function \<or> code t = halide_type_handle then None
                           else Some (def' inp)),
                arg_min = (if kind' inp = Function \<or> code t = halide_type_handle then None
                           else min' inp),
                arg_max = (if kind' inp = Function \<or> code t = halide_type_handle then None
                           else max' inp) \<rparr>)
       [0..<array_size inp]"
  using assms
  by (cases "kind' inp")
     (auto simp: input_rows_def init_internals_def init_parameters_def set_def_min_max_impl_def
      set_def_min_max_1_def foldl_append_concat element_rows_def input_row_def array_name_def
      array_size_def comp_def Let_def split: option.splits)

text \<open>
  \<open>set_def_min_max_impl\<close> on a scalar input overwrites the default of every parameter,
  and a bound where the input has one.
\<close>

lemma set_def_min_max_impl_writes:
  assumes "kind' inp = Scalar"
  shows "parameters' (set_def_min_max_impl (inp\<lparr>parameters' := ps\<rparr>))
         = map (\<lambda>p. p\<lparr>scalar := Some (def' inp),
                        min_value := (case min' inp of Some lo \<Rightarrow> Some lo | None \<Rightarrow> min_value p),
                        max_value := (case max' inp of Some hi \<Rightarrow> Some hi | None \<Rightarrow> max_value p)\<rparr>) ps"
  using assms
  by (auto simp: set_def_min_max_impl_def set_def_min_max_1_def Let_def split: option.splits)

lemma scalar_ctor_fields:
  "types' (GeneratorInput_array_def_min_max arr n nm t d lo hi) = [t]"
  "kind' (GeneratorInput_array_def_min_max arr n nm t d lo hi) = Scalar"
  "def' (GeneratorInput_array_def_min_max arr n nm t d lo hi) = d"
  "min' (GeneratorInput_array_def_min_max arr n nm t d lo hi) = lo"
  "max' (GeneratorInput_array_def_min_max arr n nm t d lo hi) = hi"
  "dimensions' (GeneratorInput_array_def_min_max arr n nm t d lo hi) = 0"
  "array_size' (GeneratorInput_array_def_min_max arr n nm t d lo hi) = n"
  "name' (GeneratorInput_array_def_min_max arr n nm t d lo hi) = nm"
  "is_array (GeneratorInput_array_def_min_max arr n nm t d lo hi) = arr"
  by (simp_all add: GeneratorInput_array_def_min_max_def)

lemma input_rows_of_parameters:
  assumes "types' inp = [t]"
  shows "input_rows inp = map (\<lambda>p. input_row inp p (param_name p) t) (parameters' inp)"
  using assms by (simp add: input_rows_def foldl_append_concat element_rows_def)

lemma name_only_fields:
  "GeneratorInput_n nm t = GeneratorInput_array_def_min_max False 1 nm t 0 None None"
  "GeneratorInput_array_n n nm t = GeneratorInput_array_def_min_max True n nm t 0 None None"
  by (simp_all add: GeneratorInput_n_def GeneratorInput_def_def GeneratorInput_array_n_def
      GeneratorInput_array_def_def)

text \<open>
  C10. An arithmetic scalar input constructed with only a name (a scalar, \<open>T[]\<close> or
  \<open>T[N]\<close>) has the default 0. The constructor delegates with \<open>static_cast<T>(0)\<close>;
  \<open>set_def_min_max_impl\<close> writes that 0 as the default of each of its parameters,
  whatever default the parameter had; so the default field of each of its metadata rows
  is present with value 0, which the equality of the test tells from absent.
\<close>

theorem name_only_default_is_zero:
  "def' (GeneratorInput_n nm t :: ('f, 'e) GeneratorInput) = 0
   \<and> def' (GeneratorInput_array_n n nm t :: ('f, 'e) GeneratorInput) = 0
   \<and> parameters' (set_def_min_max_impl
         ((GeneratorInput_n nm t :: ('f, 'e) GeneratorInput)\<lparr>parameters' := ps\<rparr>))
       = map (\<lambda>p. p\<lparr>scalar := Some 0\<rparr>) ps
   \<and> parameters' (set_def_min_max_impl
         ((GeneratorInput_array_n n nm t :: ('f, 'e) GeneratorInput)\<lparr>parameters' := ps\<rparr>))
       = map (\<lambda>p. p\<lparr>scalar := Some 0\<rparr>) ps
   \<and> (code t \<noteq> halide_type_handle \<longrightarrow>
        map arg_def (input_rows (set_def_min_max_impl
            ((GeneratorInput_array_n n nm t :: ('f, 'e) GeneratorInput)\<lparr>parameters' := ps\<rparr>)))
          = map (\<lambda>p. Some 0) ps
        \<and> input_rows (init_internals mk_func mk_expr (GeneratorInput_n nm t :: ('f, 'e) GeneratorInput))
          = [\<lparr> arg_name = nm, arg_kind = halide_argument_kind_input_scalar, arg_dimensions = 0,
               arg_type = t, arg_def = Some 0, arg_min = None, arg_max = None \<rparr>]
        \<and> (\<forall>row \<in> set (input_rows (init_internals mk_func mk_expr
                (GeneratorInput_array_n n nm t :: ('f, 'e) GeneratorInput))).
              arg_def row = Some 0
              \<and> scalar_union_ptr_equal (code t) (bits t) (arg_def row) None = Inr False))"
proof -
  have 1: "def' (GeneratorInput_n nm t :: ('f, 'e) GeneratorInput) = 0"
    "def' (GeneratorInput_array_n n nm t :: ('f, 'e) GeneratorInput) = 0"
    by (simp_all add: name_only_fields scalar_ctor_fields)
  have k: "kind' (GeneratorInput_n nm t :: ('f, 'e) GeneratorInput) = Scalar"
    "kind' (GeneratorInput_array_n n nm t :: ('f, 'e) GeneratorInput) = Scalar"
    by (simp_all add: name_only_fields scalar_ctor_fields)
  have 2: "parameters' (set_def_min_max_impl
         ((GeneratorInput_n nm t :: ('f, 'e) GeneratorInput)\<lparr>parameters' := ps\<rparr>))
       = map (\<lambda>p. p\<lparr>scalar := Some 0\<rparr>) ps"
    by (simp add: set_def_min_max_impl_writes [OF k(1)]) (simp add: name_only_fields scalar_ctor_fields)
  have 3: "parameters' (set_def_min_max_impl
         ((GeneratorInput_array_n n nm t :: ('f, 'e) GeneratorInput)\<lparr>parameters' := ps\<rparr>))
       = map (\<lambda>p. p\<lparr>scalar := Some 0\<rparr>) ps"
    by (simp add: set_def_min_max_impl_writes [OF k(2)]) (simp add: name_only_fields scalar_ctor_fields)
  have ty: "types' (set_def_min_max_impl
         ((GeneratorInput_array_n n nm t :: ('f, 'e) GeneratorInput)\<lparr>parameters' := ps\<rparr>)) = [t]"
    by (simp add: set_def_min_max_impl_def name_only_fields GeneratorInput_array_def_min_max_def)
  have 4: "code t \<noteq> halide_type_handle \<Longrightarrow>
        map arg_def (input_rows (set_def_min_max_impl
            ((GeneratorInput_array_n n nm t :: ('f, 'e) GeneratorInput)\<lparr>parameters' := ps\<rparr>)))
          = map (\<lambda>p. Some 0) ps"
    by (simp add: input_rows_of_parameters [OF ty] 3 comp_def input_row_def)
  have 5: "code t \<noteq> halide_type_handle \<Longrightarrow>
        input_rows (init_internals mk_func mk_expr (GeneratorInput_n nm t :: ('f, 'e) GeneratorInput))
          = [\<lparr> arg_name = nm, arg_kind = halide_argument_kind_input_scalar, arg_dimensions = 0,
               arg_type = t, arg_def = Some 0, arg_min = None, arg_max = None \<rparr>]"
    by (simp add: name_only_fields input_rows_init_internals [where t = t]
        scalar_ctor_fields array_name_def array_size_def)
  have 6: "code t \<noteq> halide_type_handle \<Longrightarrow>
       \<forall>row \<in> set (input_rows (init_internals mk_func mk_expr
                (GeneratorInput_array_n n nm t :: ('f, 'e) GeneratorInput))).
              arg_def row = Some 0
              \<and> scalar_union_ptr_equal (code t) (bits t) (arg_def row) None = Inr False"
    by (auto simp: input_rows_init_internals [where t = t] name_only_fields scalar_ctor_fields)
  show ?thesis using 1 2 3 4 5 6 by blast
qed

theorem name_only_default_is_zero_witness:
  "code (Int_t 8) \<noteq> halide_type_handle
   \<and> parameters' (set_def_min_max_impl
         ((GeneratorInput_n ''i8'' (Int_t 8) :: (string, string) GeneratorInput)
            \<lparr>parameters' := [\<lparr>param_name = ''i8'', scalar = Some 7, min_value = Some 1, max_value = None\<rparr>]\<rparr>))
       = [\<lparr>param_name = ''i8'', scalar = Some 0, min_value = Some 1, max_value = None\<rparr>]
   \<and> map arg_def (input_rows (set_def_min_max_impl
         ((GeneratorInput_array_n 2 ''i8'' (Int_t 8) :: (string, string) GeneratorInput)
            \<lparr>parameters' := [\<lparr>param_name = ''i8'', scalar = Some 7, min_value = Some 1, max_value = None\<rparr>]\<rparr>)))
       = [Some 0]
   \<and> input_rows (init_internals param_name param_name
         (GeneratorInput_n ''i8'' (Int_t 8) :: (string, string) GeneratorInput))
       = [\<lparr> arg_name = ''i8'', arg_kind = halide_argument_kind_input_scalar, arg_dimensions = 0,
            arg_type = Int_t 8, arg_def = Some 0, arg_min = None, arg_max = None \<rparr>]
   \<and> make_scalar 8 0 = 0
   \<and> scalar_union_ptr_equal (code (Int_t 8)) (bits (Int_t 8)) (Some 0) None = Inr False"
proof -
  have h: "code (Int_t 8) \<noteq> halide_type_handle"
    by (simp add: Int_t_def halide_type_int_def halide_type_handle_def)
  have m: "make_scalar 8 0 = 0" by (simp add: make_scalar_def)
  show ?thesis
    using h m
      name_only_default_is_zero [of "''i8''" "Int_t 8" 2
        "[\<lparr>param_name = ''i8'', scalar = Some 7, min_value = Some 1, max_value = None\<rparr>]"
        param_name param_name]
    by simp
qed

text \<open>
  C8, as the code has it. The rows of a scalar input carry the min and the max it was
  declared with, and a bound it was declared without is absent. Its default field is
  absent only when its type is a handle; for an arithmetic type it is present, with the
  default the input has. The equality of the test, \<open>scalar_union_ptr_equal\<close>, tells an
  absent field from a present one whatever the value, 0 included, and takes two absent
  fields for equal; it is the one function used for the default, the min and the max
  field.
\<close>

theorem absent_is_not_present_zero:
  "(code t \<noteq> halide_type_handle \<longrightarrow>
      (\<forall>row \<in> set (input_rows (init_internals mk_func mk_expr
           (GeneratorInput_array_def_min_max arr n nm t d lo hi :: ('f, 'e) GeneratorInput))).
         arg_def row = Some d \<and> arg_min row = lo \<and> arg_max row = hi))
   \<and> (code t = halide_type_handle \<longrightarrow>
      (\<forall>row \<in> set (input_rows (init_internals mk_func mk_expr
           (GeneratorInput_array_def_min_max arr n nm t d lo hi :: ('f, 'e) GeneratorInput))).
         arg_def row = None \<and> arg_min row = None \<and> arg_max row = None))
   \<and> scalar_union_ptr_equal c b None (Some z) = Inr False
   \<and> scalar_union_ptr_equal c b (Some z) None = Inr False
   \<and> scalar_union_ptr_equal c b None None = Inr True"
  by (auto simp: input_rows_init_internals [where t = t] scalar_ctor_fields)

theorem absent_is_not_present_zero_witness:
  "code (Int_t 16) \<noteq> halide_type_handle
   \<and> input_rows (init_internals param_name param_name
        (GeneratorInput_array_def_min_max False 1 ''x'' (Int_t 16) 16 None None :: (string, string) GeneratorInput))
      = [\<lparr> arg_name = ''x'', arg_kind = halide_argument_kind_input_scalar, arg_dimensions = 0,
            arg_type = Int_t 16, arg_def = Some 16, arg_min = None, arg_max = None \<rparr>]
   \<and> code (Float_t 32) \<noteq> halide_type_handle
   \<and> input_rows (init_internals param_name param_name
        (GeneratorInput_array_def_min_max False 1 ''float_arg'' (Float_t 32) 0x3F800000 (Some 0) (Some 0x42C80000)
           :: (string, string) GeneratorInput))
      = [\<lparr> arg_name = ''float_arg'', arg_kind = halide_argument_kind_input_scalar, arg_dimensions = 0,
            arg_type = Float_t 32, arg_def = Some 0x3F800000, arg_min = Some 0, arg_max = Some 0x42C80000 \<rparr>]
   \<and> code Handle_t = halide_type_handle
   \<and> input_rows (init_internals param_name param_name
        (GeneratorInput_array_def_min_max False 1 ''h'' Handle_t 0 None None :: (string, string) GeneratorInput))
      = [\<lparr> arg_name = ''h'', arg_kind = halide_argument_kind_input_scalar, arg_dimensions = 0,
            arg_type = Handle_t, arg_def = None, arg_min = None, arg_max = None \<rparr>]
   \<and> scalar_union_ptr_equal halide_type_int 16 None (Some 0) = Inr False"
proof -
  have h: "code (Int_t 16) \<noteq> halide_type_handle" "code Handle_t = halide_type_handle"
    "code (Float_t 32) \<noteq> halide_type_handle"
    by (simp_all add: Int_t_def Handle_t_def Float_t_def halide_type_int_def halide_type_handle_def
        halide_type_float_def)
  have a: "array_size (GeneratorInput_array_def_min_max False 1 nm t d lo hi
             :: (string, string) GeneratorInput) = Suc 0" for nm t d lo hi
    by (simp add: array_size_def scalar_ctor_fields)
  have r1: "input_rows (init_internals param_name param_name
        (GeneratorInput_array_def_min_max False 1 ''x'' (Int_t 16) 16 None None :: (string, string) GeneratorInput))
      = [\<lparr> arg_name = ''x'', arg_kind = halide_argument_kind_input_scalar, arg_dimensions = 0,
            arg_type = Int_t 16, arg_def = Some 16, arg_min = None, arg_max = None \<rparr>]"
    using h
    by (simp add: input_rows_init_internals [where t = "Int_t 16"] scalar_ctor_fields a array_name_def)
  have r2: "input_rows (init_internals param_name param_name
        (GeneratorInput_array_def_min_max False 1 ''h'' Handle_t 0 None None :: (string, string) GeneratorInput))
      = [\<lparr> arg_name = ''h'', arg_kind = halide_argument_kind_input_scalar, arg_dimensions = 0,
            arg_type = Handle_t, arg_def = None, arg_min = None, arg_max = None \<rparr>]"
    using h
    by (simp add: input_rows_init_internals [where t = Handle_t] scalar_ctor_fields a array_name_def)
  have r3: "input_rows (init_internals param_name param_name
        (GeneratorInput_array_def_min_max False 1 ''float_arg'' (Float_t 32) 0x3F800000 (Some 0) (Some 0x42C80000)
           :: (string, string) GeneratorInput))
      = [\<lparr> arg_name = ''float_arg'', arg_kind = halide_argument_kind_input_scalar, arg_dimensions = 0,
            arg_type = Float_t 32, arg_def = Some 0x3F800000, arg_min = Some 0, arg_max = Some 0x42C80000 \<rparr>]"
    using h
    by (simp add: input_rows_init_internals [where t = "Float_t 32"] scalar_ctor_fields a array_name_def)
  show ?thesis
    using h r1 r2 r3
      absent_is_not_present_zero [of "Int_t 16" param_name param_name False 1 "''x''" 16 None None
        halide_type_int 16 0]
      absent_is_not_present_zero [of "Float_t 32" param_name param_name False 1 "''float_arg''"
        "0x3F800000" "Some 0" "Some 0x42C80000" halide_type_int 16 0]
      absent_is_not_present_zero [of Handle_t param_name param_name False 1 "''h''" 0 None None
        halide_type_int 16 0]
    by simp
qed

text \<open>
  C8 as stated fails on an arithmetic scalar input declared with no default: the
  constructor gives it the default 0, binding writes it into the parameter, and the
  default field of its row is present, with value 0.
\<close>

theorem no_default_is_present_zero_counterexample:
  "map arg_def (input_rows (init_internals param_name param_name
       (GeneratorInput_n ''i32'' (Int_t 32) :: (string, string) GeneratorInput))) = [Some 0]
   \<and> scalar_union_ptr_equal halide_type_int 32 (Some 0) None = Inr False"
proof -
  have h: "code (Int_t 32) \<noteq> halide_type_handle"
    by (simp add: Int_t_def halide_type_int_def halide_type_handle_def)
  show ?thesis
    using h
    by (simp add: name_only_fields input_rows_init_internals [where t = "Int_t 32"]
        scalar_ctor_fields array_size_def)
qed

lemma make_scalar_0: "make_scalar b 0 = 0"
  by (simp add: make_scalar_def)

text \<open>
  The rows the model emits for the inputs of the generator under test are the rows of
  \<open>kExpectedArguments\<close>, field by field.
\<close>

lemma rows_of_one:
  assumes "types' inp = [t]" and "array_size' inp = 1" and "\<not> is_array inp"
  shows "input_rows (init_internals mkf mke inp) =
     [expected_row (name' inp)
        (if kind' inp = Function then halide_argument_kind_input_buffer
         else halide_argument_kind_input_scalar)
        (dimensions' inp) t
        (if kind' inp = Function \<or> code t = halide_type_handle then None else Some (def' inp))
        (if kind' inp = Function \<or> code t = halide_type_handle then None else min' inp)
        (if kind' inp = Function \<or> code t = halide_type_handle then None else max' inp)]"
proof -
  have "array_size inp = Suc 0" by (simp add: array_size_def assms)
  then show ?thesis
    by (simp add: input_rows_init_internals [OF assms(1)] expected_row_def array_name_def assms)
qed

lemma rows_of_two:
  assumes "types' inp = [t]" and "array_size' inp = 2" and "is_array inp"
  shows "input_rows (init_internals mkf mke inp) =
     [expected_row (name' inp @ ''_0'')
        (if kind' inp = Function then halide_argument_kind_input_buffer
         else halide_argument_kind_input_scalar)
        (dimensions' inp) t
        (if kind' inp = Function \<or> code t = halide_type_handle then None else Some (def' inp))
        (if kind' inp = Function \<or> code t = halide_type_handle then None else min' inp)
        (if kind' inp = Function \<or> code t = halide_type_handle then None else max' inp),
      expected_row (name' inp @ ''_1'')
        (if kind' inp = Function then halide_argument_kind_input_buffer
         else halide_argument_kind_input_scalar)
        (dimensions' inp) t
        (if kind' inp = Function \<or> code t = halide_type_handle then None else Some (def' inp))
        (if kind' inp = Function \<or> code t = halide_type_handle then None else min' inp)
        (if kind' inp = Function \<or> code t = halide_type_handle then None else max' inp)]"
proof -
  have "array_size inp = Suc (Suc 0)" by (simp add: array_size_def assms)
  then have "[0..<array_size inp] = [0, Suc 0]" by simp
  then show ?thesis
    using dec_digits_0 dec_digits_1
    by (simp add: input_rows_init_internals [OF assms(1)] expected_row_def array_name_def assms)
qed

lemma type_codes:
  "code (Int_t b) \<noteq> halide_type_handle" "code (UInt_t b) \<noteq> halide_type_handle"
  "code (Float_t b) \<noteq> halide_type_handle" "code Bool_t \<noteq> halide_type_handle"
  "code Handle_t = halide_type_handle"
  by (simp_all add: Int_t_def UInt_t_def Float_t_def Bool_t_def Handle_t_def halide_type_int_def
      halide_type_uint_def halide_type_float_def halide_type_handle_def)

lemma metadata_tester_input_rows:
  "concat (map input_rows (map (init_internals param_name param_name) metadata_tester_inputs))
   = kExpectedArguments_inputs"
  by (simp add: metadata_tester_inputs_def kExpectedArguments_inputs_def rows_of_one rows_of_two
      GeneratorInput_Func_def GeneratorInput_def_def GeneratorInput_def_min_max_def
      GeneratorInput_n_def GeneratorInput_array_n_def GeneratorInput_array_def_def
      GeneratorInput_array_def_min_max_def type_codes make_scalar_0 Bool_t_def)

lemma kExpectedArguments_inputs_names: "map arg_name kExpectedArguments_inputs = take 34 (drop 1 kExpectedArguments_names)"
  by (simp add: kExpectedArguments_inputs_def kExpectedArguments_names_def expected_row_def)


section \<open>Registry: duplicate names and unknown names\<close>

text \<open>
  C9. Registering a factory under a name that is registered fails and leaves the
  registry as it was; creating from a name that is not registered fails (and that name
  can be registered); creating from a registered name returns the instance its factory
  makes, a new one from the creation function, with the wrapper class name set and the
  overrides applied.
\<close>

theorem registry_register_and_create:
  "(registry name = Some f0 \<longrightarrow>
      failed (register_factory name f registry) \<and> snd (register_factory name f registry) = registry)
   \<and> (registry other = None \<longrightarrow>
        isl (create sgpv other params registry)
        \<and> fst (register_factory other f registry) = Inr ()
        \<and> snd (register_factory other f registry) = registry(other \<mapsto> f))
   \<and> (registry name = Some f0 \<and> create_func f0 () = Some g \<and> wrapper_class_name g = []
        \<and> sgpv params (g\<lparr>wrapper_class_name := wrapper_class_name_F f0\<rparr>) = (Inr (), g') \<longrightarrow>
        create sgpv name params registry = Inr g')"
  by (auto simp: register_factory_def create_def failed_def SimpleGeneratorFactory_create_def
      set_wrapper_class_name_def split: option.splits)

theorem registry_register_and_create_witness:
  "[''k'' \<mapsto> example_factory] ''k'' = Some example_factory
   \<and> failed (register_factory ''k'' (example_factory\<lparr>wrapper_class_name_F := ''V''\<rparr>) [''k'' \<mapsto> example_factory])
   \<and> snd (register_factory ''k'' (example_factory\<lparr>wrapper_class_name_F := ''V''\<rparr>) [''k'' \<mapsto> example_factory])
       = [''k'' \<mapsto> example_factory]
   \<and> [''k'' \<mapsto> example_factory] ''missing'' = None
   \<and> isl (create apply_overrides ''missing'' [] [''k'' \<mapsto> example_factory])
   \<and> create_func example_factory () = Some (new_generator [])
   \<and> wrapper_class_name (new_generator [] :: (string \<times> string) list GeneratorBase) = []
   \<and> create apply_overrides ''k'' [(''vectorize'', ''false'')] [''k'' \<mapsto> example_factory]
       = Inr ((new_generator [(''vectorize'', ''false'')])\<lparr>wrapper_class_name := ''W''\<rparr>)"
proof -
  have a: "[''k'' \<mapsto> example_factory] ''k'' = Some example_factory"
    and b: "[''k'' \<mapsto> example_factory] ''missing'' = None"
    by simp_all
  have c: "create_func example_factory () = Some (new_generator [])"
    "wrapper_class_name_F example_factory = ''W''"
    by (simp_all add: example_factory_def)
  have d: "wrapper_class_name (new_generator [] :: (string \<times> string) list GeneratorBase) = []"
    by (simp add: new_generator_def)
  have e: "apply_overrides [(''vectorize'', ''false'')]
             ((new_generator [])\<lparr>wrapper_class_name := wrapper_class_name_F example_factory\<rparr>)
           = (Inr (), (new_generator [(''vectorize'', ''false'')])\<lparr>wrapper_class_name := ''W''\<rparr>)"
    by (simp add: apply_overrides_def new_generator_def c)
  show ?thesis
    using a b c d e
      registry_register_and_create [of "[''k'' \<mapsto> example_factory]" "''k''" example_factory
        "example_factory\<lparr>wrapper_class_name_F := ''V''\<rparr>" "''missing''" apply_overrides
        "[(''vectorize'', ''false'')]" "new_generator []"
        "(new_generator [(''vectorize'', ''false'')])\<lparr>wrapper_class_name := ''W''\<rparr>"]
      registry_register_and_create [of "[''k'' \<mapsto> example_factory]" "''k''" example_factory
        "example_factory\<lparr>wrapper_class_name_F := ''V''\<rparr>" "''missing''" apply_overrides
        "[]" "new_generator []"
        "(new_generator [(''vectorize'', ''false'')])\<lparr>wrapper_class_name := ''W''\<rparr>"]
    by simp
qed


section \<open>Configuration values: the round trip through text\<close>

lemma of_char_digit_char: "d < 10 \<Longrightarrow> (of_char (digit_char d) :: nat) = 48 + d"
  by (simp add: digit_char_def)

lemma isdigit_digit_char: "d < 10 \<Longrightarrow> isdigit (digit_char d)"
  by (simp add: isdigit_def of_char_digit_char)

lemma dec_digits_isdigit: "c \<in> set (dec_digits n) \<Longrightarrow> isdigit c"
proof (induction n arbitrary: c rule: dec_digits.induct)
  case (1 n)
  show ?case
  proof (cases "n < 10")
    case True
    with "1.prems" show ?thesis
      by (simp add: dec_digits.simps [of n] isdigit_digit_char)
  next
    case False
    with "1.prems" "1.IH" show ?thesis
      by (auto simp: dec_digits.simps [of n] isdigit_digit_char)
  qed
qed

lemma dec_digits_nonempty: "dec_digits n \<noteq> []"
  by (simp add: dec_digits.simps [of n])

lemma digits_value_snoc: "digits_value (ds @ [c]) = 10 * digits_value ds + (of_char c - 48)"
  by (simp add: digits_value_def)

lemma of_char_digit_char_int: "d < 10 \<Longrightarrow> (of_char (digit_char d) :: int) = 48 + int d"
proof -
  assume "d < 10"
  then have "(of_char (digit_char d) :: nat) = 48 + d" by (rule of_char_digit_char)
  then have "int (of_char (digit_char d)) = int (48 + d)" by (rule arg_cong)
  then show ?thesis by (simp only: of_nat_of_char)
qed

lemma digits_value_dec_digits: "digits_value (dec_digits n) = int n"
proof (induction n rule: dec_digits.induct)
  case (1 n)
  show ?case
  proof (cases "n < 10")
    case True
    then show ?thesis
      by (simp add: dec_digits.simps [of n] digits_value_def of_char_digit_char_int)
  next
    case False
    then have "digits_value (dec_digits n) = 10 * int (n div 10) + int (n mod 10)"
      using "1.IH" by (simp add: dec_digits.simps [of n] digits_value_snoc of_char_digit_char_int)
    then show ?thesis by (simp add: zdiv_int zmod_int)
  qed
qed

lemma not_isspace_isdigit: "isdigit c \<Longrightarrow> \<not> isspace c"
  by (auto simp: isdigit_def isspace_def)

lemma isdigit_not_sign: "isdigit c \<Longrightarrow> c \<noteq> CHR ''-'' \<and> c \<noteq> CHR ''+''"
  by (auto simp: isdigit_def)

lemma not_isspace_minus: "\<not> isspace CHR ''-''"
  by (simp add: isspace_def)

lemma takeWhile_dec_digits: "takeWhile isdigit (dec_digits n) = dec_digits n"
  by (simp add: dec_digits_isdigit)

lemma dropWhile_dec_digits: "dropWhile isdigit (dec_digits n) = []"
  by (simp add: dec_digits_isdigit)

lemma extract_signed_negative:
  assumes "ds \<noteq> []" and "\<forall>c \<in> set ds. isdigit c"
    and "- (2 ^ (w - 1)) \<le> - digits_value ds" and "- digits_value ds \<le> 2 ^ (w - 1) - 1"
  shows "extract_signed w (CHR ''-'' # ds) = (Some (- digits_value ds), [])"
proof -
  have tw: "takeWhile isdigit ds = ds" and dw: "dropWhile isdigit ds = []"
    using assms(2) by simp_all
  show ?thesis
    using assms(1,3,4)
    by (simp add: extract_signed_def not_isspace_minus Let_def tw dw)
qed

lemma extract_signed_positive:
  assumes "\<forall>x \<in> set (c # cs). isdigit x"
    and "- (2 ^ (w - 1)) \<le> digits_value (c # cs)" and "digits_value (c # cs) \<le> 2 ^ (w - 1) - 1"
  shows "extract_signed w (c # cs) = (Some (digits_value (c # cs)), [])"
proof -
  have c: "isdigit c" using assms(1) by simp
  have tw: "takeWhile isdigit cs = cs" and dw: "dropWhile isdigit cs = []"
    using assms(1) by simp_all
  show ?thesis
    using assms(2,3) c not_isspace_isdigit [OF c] isdigit_not_sign [OF c]
    by (simp add: extract_signed_def Let_def tw dw)
qed

lemma extract_signed_format_int:
  assumes "- (2 ^ (w - 1)) \<le> v" and "v \<le> 2 ^ (w - 1) - 1"
  shows "extract_signed w (format_int v) = (Some v, [])"
proof (cases "v < 0")
  case True
  have dv: "digits_value (dec_digits (nat (- v))) = - v"
    using True by (simp add: digits_value_dec_digits)
  have "extract_signed w (CHR ''-'' # dec_digits (nat (- v)))
        = (Some (- digits_value (dec_digits (nat (- v)))), [])"
    using assms dec_digits_isdigit
    by (intro extract_signed_negative) (auto simp: dec_digits_nonempty dv)
  then show ?thesis using True by (simp add: format_int_def dv)
next
  case False
  obtain c cs where d: "dec_digits (nat v) = c # cs"
    using dec_digits_nonempty [of "nat v"] by (cases "dec_digits (nat v)") auto
  have dv: "digits_value (c # cs) = v"
    using digits_value_dec_digits [of "nat v"] d False by simp
  have "\<forall>x \<in> set (c # cs). isdigit x"
    using dec_digits_isdigit [of _ "nat v"] d by auto
  then have "extract_signed w (c # cs) = (Some (digits_value (c # cs)), [])"
    using assms by (intro extract_signed_positive) (simp_all only: dv)
  then show ?thesis using False by (simp add: format_int_def d dv)
qed

text \<open>
  The round trip through text holds for the signed integer types wider than a byte, for
  bool and for an enumeration whose current value is in its table.
\<close>

lemma round_trip_signed:
  assumes "- (2 ^ (w - 1)) \<le> value' p" and "value' p \<le> 2 ^ (w - 1) - 1"
  shows "set_from_string_Arithmetic (extract_signed w) (to_string_Arithmetic format_int p) q
         = set_Arithmetic (value' p) q"
  by (simp add: set_from_string_Arithmetic_def to_string_Arithmetic_def
      extract_signed_format_int [OF assms])

lemma round_trip_Bool:
  "set_from_string_Bool (to_string_Bool p) q = set_Arithmetic (value' p) q"
  by (simp add: set_from_string_Bool_def to_string_Bool_def)

lemma round_trip_Enum:
  assumes "distinct (map fst (enum_map p))" and "to_string_Enum p = Inr k"
    and "enum_map q = enum_map p"
  shows "set_from_string_Enum k q = (Inr (), q\<lparr>value' := value' p\<rparr>)"
proof -
  have "enum_to_string m v = Inr k \<Longrightarrow> (k, v) \<in> set m" for m :: "(string \<times> 'a) list" and v
    by (induction m) (auto split: if_splits)
  then have "(k, value' p) \<in> set (enum_map p)"
    using assms(2) by (simp add: to_string_Enum_def)
  then have "map_of (enum_map p) k = Some (value' p)"
    using assms(1) by simp
  then show ?thesis by (simp add: set_from_string_Enum_def assms(3))
qed

text \<open>
  C4 at a one-byte integer type. An \<open>int8_t\<close> configuration value, bounds -128 and
  127, is set to 32. \<open>to_string\<close> writes the one character with code 32, a space, and
  \<open>set_from_string\<close> of that text into a value of the same type fails, since the
  extraction skips white space and finds nothing; the value it was applied to keeps its
  0. The decimal text \<open>32\<close>, which \<open>std::to_string\<close> in \<open>call_to_string\<close> produces for the
  same value, is not accepted either: one character is read and one is left.
\<close>

theorem int8_round_trip_fails:
  "set_Arithmetic 32 \<lparr>value' = 0 :: int, min_GP = - 128, max_GP = 127\<rparr>
     = (Inr (), \<lparr>value' = 32, min_GP = - 128, max_GP = 127\<rparr>)
   \<and> to_string_Arithmetic format_int8 \<lparr>value' = 32, min_GP = - 128, max_GP = 127\<rparr> = '' ''
   \<and> set_from_string_Arithmetic extract_int8 '' '' \<lparr>value' = 0, min_GP = - 128, max_GP = 127\<rparr>
     = (Inl (UserError ''Unable to parse''), \<lparr>value' = 0, min_GP = - 128, max_GP = 127\<rparr>)
   \<and> format_int 32 = ''32''
   \<and> set_from_string_Arithmetic extract_int8 ''32'' \<lparr>value' = 0, min_GP = - 128, max_GP = 127\<rparr>
     = (Inl (UserError ''Unable to parse''), \<lparr>value' = 0, min_GP = - 128, max_GP = 127\<rparr>)"
proof -
  have a: "format_int8 32 = '' ''" by code_simp
  have b: "extract_int8 '' '' = (None, [])"
    by (simp add: extract_int8_def isspace_def)
  have c: "format_int 32 = ''32''" by code_simp
  have d: "extract_int8 ''32'' = (Some 51, ''2'')"
    by (simp add: extract_int8_def isspace_def)
  show ?thesis
    by (simp add: set_Arithmetic_def to_string_Arithmetic_def set_from_string_Arithmetic_def a b c d)
qed


end
